theory Spec2Isabelle
  imports Main "HOL-Library.Word"
begin

section \<open>Locale string data of System.Globalization.Native\<close>

text \<open>
  A shallow embedding of \<^verbatim>\<open>pal_localeStringData.c\<close>. The file is a shim: every
  function forwards to the internationalization library it wraps. The library, and
  the helpers of the runtime that live in other files, are a parameter of the model
  (the record \<open>externs\<close>); the functions of the file itself are translated line by
  line. What a C function does to memory and which library calls it makes are kept
  in an explicit state, the record \<open>world\<close>.

  The \<^verbatim>\<open>int32_t\<close> and \<^verbatim>\<open>int\<close> values of the file are modelled as \<open>int\<close>. The
  only arithmetic on them is one added to a length that the library returned, a
  difference of two digit symbols, and a digit index from 0 to 9 subtracted from
  \<^verbatim>\<open>valueLength\<close>; the last is the one that can leave the range of \<^verbatim>\<open>int32_t\<close>, and
  its wrap-around is written out (\<open>int32_sub\<close>).
\<close>

subsection \<open>Status codes\<close>

text \<open>
  Modelled from the spec: the status enumeration of the wrapped library ("success,
  illegal argument, buffer overflow, memory failure, unsupported"). Its header is not
  among the sources. A status is an integer; zero and the negative values (warnings)
  are successes, the positive values are failures. The numbers are those of the
  library's public header.
\<close>

type_synonym UErrorCode = int

definition U_ZERO_ERROR :: UErrorCode where
  "U_ZERO_ERROR = 0"

definition U_ILLEGAL_ARGUMENT_ERROR :: UErrorCode where
  "U_ILLEGAL_ARGUMENT_ERROR = 1"

definition U_MEMORY_ALLOCATION_ERROR :: UErrorCode where
  "U_MEMORY_ALLOCATION_ERROR = 7"

definition U_BUFFER_OVERFLOW_ERROR :: UErrorCode where
  "U_BUFFER_OVERFLOW_ERROR = 15"

definition U_UNSUPPORTED_ERROR :: UErrorCode where
  "U_UNSUPPORTED_ERROR = 16"

definition U_SUCCESS :: "UErrorCode \<Rightarrow> bool" where
  "U_SUCCESS x = (x \<le> U_ZERO_ERROR)"

definition U_FAILURE :: "UErrorCode \<Rightarrow> bool" where
  "U_FAILURE x = (x > U_ZERO_ERROR)"

text \<open>
  Modelled from the spec: the helper \<^verbatim>\<open>UErrorCodeToBool\<close> of the runtime, which is
  declared in a header that is not among the sources. The spec says that the status
  is "converted to a boolean success flag", and the comment of each exported function
  says "Returns 1 for success, 0 otherwise".
\<close>

definition UErrorCodeToBool :: "UErrorCode \<Rightarrow> int" where
  "UErrorCodeToBool status = (if U_SUCCESS status then 1 else 0)"

subsection \<open>Constants of the library's interface\<close>

text \<open>
  Modelled from the spec: the enumerators and capacities that the file passes to the
  library. They are declared in the library's public headers, which are not among the
  sources; the numbers are the ones those headers fix. The loop over the digits
  relies on \<open>UNUM_ONE_DIGIT_SYMBOL\<close> to \<open>UNUM_NINE_DIGIT_SYMBOL\<close> being contiguous,
  as the comment in the source says.
\<close>

type_synonym UChar = "16 word"
type_synonym UNumberFormatSymbol = int
type_synonym UDateFormatStyle = int
type_synonym handle = nat

definition UNUM_DECIMAL_SEPARATOR_SYMBOL :: UNumberFormatSymbol where
  "UNUM_DECIMAL_SEPARATOR_SYMBOL = 0"

definition UNUM_GROUPING_SEPARATOR_SYMBOL :: UNumberFormatSymbol where
  "UNUM_GROUPING_SEPARATOR_SYMBOL = 1"

definition UNUM_PERCENT_SYMBOL :: UNumberFormatSymbol where
  "UNUM_PERCENT_SYMBOL = 3"

definition UNUM_ZERO_DIGIT_SYMBOL :: UNumberFormatSymbol where
  "UNUM_ZERO_DIGIT_SYMBOL = 4"

definition UNUM_MINUS_SIGN_SYMBOL :: UNumberFormatSymbol where
  "UNUM_MINUS_SIGN_SYMBOL = 6"

definition UNUM_PLUS_SIGN_SYMBOL :: UNumberFormatSymbol where
  "UNUM_PLUS_SIGN_SYMBOL = 7"

definition UNUM_CURRENCY_SYMBOL :: UNumberFormatSymbol where
  "UNUM_CURRENCY_SYMBOL = 8"

definition UNUM_INTL_CURRENCY_SYMBOL :: UNumberFormatSymbol where
  "UNUM_INTL_CURRENCY_SYMBOL = 9"

definition UNUM_MONETARY_SEPARATOR_SYMBOL :: UNumberFormatSymbol where
  "UNUM_MONETARY_SEPARATOR_SYMBOL = 10"

definition UNUM_PERMILL_SYMBOL :: UNumberFormatSymbol where
  "UNUM_PERMILL_SYMBOL = 12"

definition UNUM_INFINITY_SYMBOL :: UNumberFormatSymbol where
  "UNUM_INFINITY_SYMBOL = 14"

definition UNUM_NAN_SYMBOL :: UNumberFormatSymbol where
  "UNUM_NAN_SYMBOL = 15"

definition UNUM_MONETARY_GROUPING_SEPARATOR_SYMBOL :: UNumberFormatSymbol where
  "UNUM_MONETARY_GROUPING_SEPARATOR_SYMBOL = 17"

definition UNUM_ONE_DIGIT_SYMBOL :: UNumberFormatSymbol where
  "UNUM_ONE_DIGIT_SYMBOL = 18"

definition UNUM_NINE_DIGIT_SYMBOL :: UNumberFormatSymbol where
  "UNUM_NINE_DIGIT_SYMBOL = 26"

definition UNUM_DECIMAL :: int where
  "UNUM_DECIMAL = 1"

definition UDAT_NONE :: UDateFormatStyle where
  "UDAT_NONE = - 1"

definition UDAT_MEDIUM :: UDateFormatStyle where
  "UDAT_MEDIUM = 2"

definition UDAT_SHORT :: UDateFormatStyle where
  "UDAT_SHORT = 3"

definition UDAT_DEFAULT :: UDateFormatStyle where
  "UDAT_DEFAULT = UDAT_MEDIUM"

definition UDAT_AM_PMS :: int where
  "UDAT_AM_PMS = 5"

definition UCURR_LONG_NAME :: int where
  "UCURR_LONG_NAME = 1"

definition ULOC_FULLNAME_CAPACITY :: int where
  "ULOC_FULLNAME_CAPACITY = 157"

definition ULOC_ENGLISH :: string where
  "ULOC_ENGLISH = ''en''"

definition ULOC_US :: string where
  "ULOC_US = ''en_US''"

subsection \<open>The requested field\<close>

text \<open>
  Modelled from the spec: the enumeration \<^verbatim>\<open>LocaleStringData\<close>, "an enum of requested
  fields". Its header is not among the sources; the enumerators are the case labels of
  the switch in \<^verbatim>\<open>GlobalizationNative_GetLocaleInfoString\<close>. The argument arrives from
  managed code as an integer, so it may be none of them: \<open>Unlisted\<close> stands for every
  such integer, the ones the \<^verbatim>\<open>default\<close> label takes.
\<close>

datatype LocaleStringData =
    LocalizedDisplayName
  | EnglishDisplayName
  | NativeDisplayName
  | LocalizedLanguageName
  | EnglishLanguageName
  | NativeLanguageName
  | EnglishCountryName
  | NativeCountryName
  | ListSeparator
  | ThousandSeparator
  | DecimalSeparator
  | Digits
  | MonetarySymbol
  | Iso4217MonetarySymbol
  | CurrencyEnglishName
  | CurrencyNativeName
  | MonetaryDecimalSeparator
  | MonetaryThousandSeparator
  | AMDesignator
  | PMDesignator
  | PositiveSign
  | NegativeSign
  | Iso639LanguageTwoLetterName
  | Iso639LanguageThreeLetterName
  | Iso3166CountryName
  | Iso3166CountryName2
  | NaNSymbol
  | PositiveInfinitySymbol
  | ParentName
  | PercentSymbol
  | PerMilleSymbol
  | Unlisted

subsection \<open>What the file calls and does not define\<close>

text \<open>
  The library and the runtime's helpers, as functions. A C function that fills a
  caller's array and sets \<^verbatim>\<open>*status\<close> is a function from its arguments, the capacity
  and the status on entry to the characters it stores at the start of the array (the
  terminating zero among them, when it stores one) and the status on exit. Arguments
  that the file always passes as \<^verbatim>\<open>NULL\<close> or \<^verbatim>\<open>0\<close> are left out. A C string is the
  list of its characters before the terminating zero.

  \<^item> \<open>GetLocale\<close>, \<open>DetectDefaultLocaleName\<close>, \<open>FixupLocaleName\<close> and
    \<open>u_charsToUChars_safe\<close> are helpers of the runtime defined in another file, which
    is not among the sources.
  \<^item> \<open>calloc\<close> says whether an allocation of the given number of bytes succeeds.
  \<^item> \<open>uloc_getLanguage\<close> and \<open>uloc_getCountry\<close> give the length they return, the
    C string they leave in the array, and the status.
  \<^item> \<open>ucurr_getName\<close> gives the name it points to and the status; the length it
    reports through \<^verbatim>\<open>len\<close> is the length of that name.
\<close>

record externs =
  GetLocale :: "UChar list \<Rightarrow> int \<Rightarrow> bool \<Rightarrow> UErrorCode \<Rightarrow> string \<times> UErrorCode"
  DetectDefaultLocaleName :: "string"
  FixupLocaleName :: "UChar list \<Rightarrow> int \<Rightarrow> UChar list"
  u_charsToUChars_safe :: "string \<Rightarrow> int \<Rightarrow> UChar list \<times> UErrorCode"
  calloc :: "int \<Rightarrow> bool"
  uloc_getDisplayName :: "string \<Rightarrow> string \<Rightarrow> int \<Rightarrow> UErrorCode \<Rightarrow> UChar list \<times> UErrorCode"
  uloc_getDisplayLanguage :: "string \<Rightarrow> string \<Rightarrow> int \<Rightarrow> UErrorCode \<Rightarrow> UChar list \<times> UErrorCode"
  uloc_getDisplayCountry :: "string \<Rightarrow> string \<Rightarrow> int \<Rightarrow> UErrorCode \<Rightarrow> UChar list \<times> UErrorCode"
  uloc_getLanguage :: "string \<Rightarrow> int \<Rightarrow> UErrorCode \<Rightarrow> int \<times> string \<times> UErrorCode"
  uloc_getCountry :: "string \<Rightarrow> int \<Rightarrow> UErrorCode \<Rightarrow> int \<times> string \<times> UErrorCode"
  uloc_getISO3Language :: "string \<Rightarrow> string"
  uloc_getISO3Country :: "string \<Rightarrow> string"
  uloc_getParent :: "string \<Rightarrow> int \<Rightarrow> UErrorCode \<Rightarrow> string \<times> UErrorCode"
  ucurr_forLocale :: "string \<Rightarrow> int \<Rightarrow> UErrorCode \<Rightarrow> UChar list \<times> UErrorCode"
  ucurr_getName :: "UChar list \<Rightarrow> string \<Rightarrow> int \<Rightarrow> UErrorCode \<Rightarrow> UChar list \<times> UErrorCode"
  unum_open :: "int \<Rightarrow> string \<Rightarrow> UErrorCode \<Rightarrow> handle \<times> UErrorCode"
  unum_getSymbol :: "handle \<Rightarrow> UNumberFormatSymbol \<Rightarrow> int \<Rightarrow> UErrorCode \<Rightarrow> UChar list \<times> UErrorCode"
  udat_open :: "UDateFormatStyle \<Rightarrow> UDateFormatStyle \<Rightarrow> string \<Rightarrow> UErrorCode \<Rightarrow> handle \<times> UErrorCode"
  udat_getSymbols :: "handle \<Rightarrow> int \<Rightarrow> int \<Rightarrow> int \<Rightarrow> UErrorCode \<Rightarrow> UChar list \<times> UErrorCode"
  udat_toPattern :: "handle \<Rightarrow> bool \<Rightarrow> int \<Rightarrow> UErrorCode \<Rightarrow> UChar list \<times> UErrorCode"

subsection \<open>The state: the caller's array and the calls made\<close>

text \<open>
  A call of the library, or of the allocator, as it is recorded: with the handle it
  concerns and the status it left, where it has one. \<open>Unum_getSymbol\<close> also records
  the symbol asked for, the offset in the caller's array that it was told to fill and
  the capacity it was given.
\<close>

datatype call =
    Uloc_getDisplayName UErrorCode
  | Uloc_getDisplayLanguage UErrorCode
  | Uloc_getDisplayCountry UErrorCode
  | Uloc_getLanguage UErrorCode
  | Uloc_getCountry UErrorCode
  | Uloc_getISO3Language
  | Uloc_getISO3Country
  | Uloc_getParent UErrorCode
  | Ucurr_forLocale UErrorCode
  | Ucurr_getName UErrorCode
  | Unum_open handle UErrorCode
  | Unum_getSymbol handle UNumberFormatSymbol nat int UErrorCode
  | Unum_close handle
  | Udat_open handle UErrorCode
  | Udat_getSymbols handle UErrorCode
  | Udat_toPattern handle UErrorCode
  | Udat_close handle
  | Calloc int bool
  | Free

record world =
  buffer :: "UChar list"
  calls :: "call list"

definition record_call :: "call \<Rightarrow> world \<Rightarrow> world" where
  "record_call c w = w\<lparr>calls := calls w @ [c]\<rparr>"

text \<open>
  Storing characters in the caller's array from an offset on. The array is the list
  \<open>buffer\<close>; a store beyond its end is undefined behaviour in C and changes nothing
  here, so a theorem about what is stored says how long the array is.
\<close>

definition poke :: "UChar list \<Rightarrow> nat \<Rightarrow> UChar list \<Rightarrow> UChar list" where
  "poke mem off xs = take (length mem) (take off mem @ xs @ drop (off + length xs) mem)"

definition store :: "nat \<Rightarrow> UChar list \<Rightarrow> world \<Rightarrow> world" where
  "store off xs w = w\<lparr>buffer := poke (buffer w) off xs\<rparr>"

subsection \<open>The adapters\<close>

text \<open>
  The pointer \<^verbatim>\<open>value\<close> is an offset into the caller's array, written \<open>val\<close>: the
  exported functions pass 0, and \<open>GetDigitSymbol\<close> passes \<^verbatim>\<open>value + digit\<close>. Every
  call of the library and of the allocator is recorded in the order in which the source
  makes it.
\<close>

definition GetLocaleInfoDecimalFormatSymbol ::
  "externs \<Rightarrow> string \<Rightarrow> UNumberFormatSymbol \<Rightarrow> nat \<Rightarrow> int \<Rightarrow> world \<Rightarrow> UErrorCode \<times> world" where
  "GetLocaleInfoDecimalFormatSymbol ex locale symbol val valueLength w =
     (let (pFormat, status) = unum_open ex UNUM_DECIMAL locale U_ZERO_ERROR;
          w1 = record_call (Unum_open pFormat status) w
      in if U_FAILURE status then (status, w1)
         else
           let (written, status') = unum_getSymbol ex pFormat symbol valueLength status;
               w2 = record_call (Unum_getSymbol pFormat symbol val valueLength status')
                      (store val written w1);
               w3 = record_call (Unum_close pFormat) w2
           in (status', w3))"

text \<open>
  \<^verbatim>\<open>valueLength - digit\<close> is a subtraction of \<^verbatim>\<open>int32_t\<close> values. Where the difference
  leaves the range of \<^verbatim>\<open>int32_t\<close> the C standard leaves the behaviour undefined; the
  compiled code wraps around, and so does the model.
\<close>

definition int32_sub :: "int \<Rightarrow> int \<Rightarrow> int" where
  "int32_sub a b = (a - b + 2147483648) mod 4294967296 - 2147483648"

definition GetDigitSymbol ::
  "externs \<Rightarrow> string \<Rightarrow> UErrorCode \<Rightarrow> UNumberFormatSymbol \<Rightarrow> int \<Rightarrow> nat \<Rightarrow> int \<Rightarrow> world
     \<Rightarrow> UErrorCode \<times> world" where
  "GetDigitSymbol ex locale previousStatus symbol digit val valueLength w =
     (if U_FAILURE previousStatus then (previousStatus, w)
      else GetLocaleInfoDecimalFormatSymbol ex locale symbol (val + nat digit)
             (int32_sub valueLength digit) w)"

definition GetLocaleInfoAmPm ::
  "externs \<Rightarrow> string \<Rightarrow> bool \<Rightarrow> nat \<Rightarrow> int \<Rightarrow> world \<Rightarrow> UErrorCode \<times> world" where
  "GetLocaleInfoAmPm ex locale am val valueLength w =
     (let (pFormat, status) = udat_open ex UDAT_DEFAULT UDAT_DEFAULT locale U_ZERO_ERROR;
          w1 = record_call (Udat_open pFormat status) w
      in if U_FAILURE status then (status, w1)
         else
           let (written, status') =
                 udat_getSymbols ex pFormat UDAT_AM_PMS (if am then 0 else 1) valueLength status;
               w2 = record_call (Udat_getSymbols pFormat status') (store val written w1);
               w3 = record_call (Udat_close pFormat) w2
           in (status', w3))"

definition GetLocaleIso639LanguageTwoLetterName ::
  "externs \<Rightarrow> string \<Rightarrow> nat \<Rightarrow> int \<Rightarrow> world \<Rightarrow> UErrorCode \<times> world" where
  "GetLocaleIso639LanguageTwoLetterName ex locale val valueLength w =
     (let (n, unused, status0) = uloc_getLanguage ex locale 0 U_ZERO_ERROR;
          len = n + 1;
          w1 = record_call (Uloc_getLanguage status0) w
      in if \<not> calloc ex len then (U_MEMORY_ALLOCATION_ERROR, record_call (Calloc len False) w1)
         else
           let w2 = record_call (Calloc len True) w1;
               (m, buf, status) = uloc_getLanguage ex locale len U_ZERO_ERROR;
               w3 = record_call (Uloc_getLanguage status) w2;
               (status', w4) =
                 (if U_SUCCESS status
                  then let (written, st) = u_charsToUChars_safe ex buf valueLength
                       in (st, store val written w3)
                  else (status, w3))
           in (status', record_call Free w4))"

definition GetLocaleIso639LanguageThreeLetterName ::
  "externs \<Rightarrow> string \<Rightarrow> nat \<Rightarrow> int \<Rightarrow> world \<Rightarrow> UErrorCode \<times> world" where
  "GetLocaleIso639LanguageThreeLetterName ex locale val valueLength w =
     (let isoLanguage = uloc_getISO3Language ex locale;
          w1 = record_call Uloc_getISO3Language w
      in if isoLanguage = [] then (U_ILLEGAL_ARGUMENT_ERROR, w1)
         else let (written, st) = u_charsToUChars_safe ex isoLanguage valueLength
              in (st, store val written w1))"

definition GetLocaleIso3166CountryName ::
  "externs \<Rightarrow> string \<Rightarrow> nat \<Rightarrow> int \<Rightarrow> world \<Rightarrow> UErrorCode \<times> world" where
  "GetLocaleIso3166CountryName ex locale val valueLength w =
     (let (n, unused, status0) = uloc_getCountry ex locale 0 U_ZERO_ERROR;
          len = n + 1;
          w1 = record_call (Uloc_getCountry status0) w
      in if \<not> calloc ex len then (U_MEMORY_ALLOCATION_ERROR, record_call (Calloc len False) w1)
         else
           let w2 = record_call (Calloc len True) w1;
               (m, buf, status) = uloc_getCountry ex locale len U_ZERO_ERROR;
               w3 = record_call (Uloc_getCountry status) w2;
               (status', w4) =
                 (if U_SUCCESS status
                  then let (written, st) = u_charsToUChars_safe ex buf valueLength
                       in (st, store val written w3)
                  else (status, w3))
           in (status', record_call Free w4))"

definition GetLocaleIso3166CountryCode ::
  "externs \<Rightarrow> string \<Rightarrow> nat \<Rightarrow> int \<Rightarrow> world \<Rightarrow> UErrorCode \<times> world" where
  "GetLocaleIso3166CountryCode ex locale val valueLength w =
     (let pIsoCountryName = uloc_getISO3Country ex locale;
          len = int (length pIsoCountryName);
          w1 = record_call Uloc_getISO3Country w
      in if len = 0 then (U_ILLEGAL_ARGUMENT_ERROR, w1)
         else let (written, st) = u_charsToUChars_safe ex pIsoCountryName valueLength
              in (st, store val written w1))"

text \<open>
  \<^verbatim>\<open>u_strncpy(dst, src, n)\<close> of the library copies characters of the string \<open>src\<close>,
  its terminating zero included, until it has copied \<open>n\<close> of them.
\<close>

definition u_strncpy :: "UChar list \<Rightarrow> int \<Rightarrow> UChar list" where
  "u_strncpy src n = take (nat n) (src @ [0])"

definition GetLocaleCurrencyName ::
  "externs \<Rightarrow> string \<Rightarrow> bool \<Rightarrow> nat \<Rightarrow> int \<Rightarrow> world \<Rightarrow> UErrorCode \<times> world" where
  "GetLocaleCurrencyName ex locale nativeName val valueLength w =
     (let (currencyThreeLettersName, status) = ucurr_forLocale ex locale 4 U_ZERO_ERROR;
          w1 = record_call (Ucurr_forLocale status) w
      in if \<not> U_SUCCESS status then (status, w1)
         else
           let (pCurrencyLongName, status') =
                 ucurr_getName ex currencyThreeLettersName (if nativeName then locale else ULOC_US)
                   UCURR_LONG_NAME status;
               len = int (length pCurrencyLongName);
               w2 = record_call (Ucurr_getName status') w1
           in if \<not> U_SUCCESS status' then (status', w2)
              else if len \<ge> valueLength then (U_BUFFER_OVERFLOW_ERROR, w2)
              else (status', store (val + nat len) [0] (store val (u_strncpy pCurrencyLongName len) w2)))"

subsection \<open>The exported functions\<close>

text \<open>
  The loop of the \<^verbatim>\<open>Digits\<close> case:
  \<^verbatim>\<open>for (symbol = UNUM_ONE_DIGIT_SYMBOL; symbol <= UNUM_NINE_DIGIT_SYMBOL; symbol++)\<close>.
\<close>

function digit_loop ::
  "externs \<Rightarrow> string \<Rightarrow> int \<Rightarrow> UErrorCode \<Rightarrow> int \<Rightarrow> world \<Rightarrow> UErrorCode \<times> world" where
  "digit_loop ex locale symbol status valueLength w =
     (if symbol \<le> UNUM_NINE_DIGIT_SYMBOL
      then
        let charIndex = symbol - UNUM_ONE_DIGIT_SYMBOL + 1;
            (status', w') = GetDigitSymbol ex locale status symbol charIndex 0 valueLength w
        in digit_loop ex locale (symbol + 1) status' valueLength w'
      else (status, w))"
  by pat_completeness auto
termination
  by (relation "measure (\<lambda>(ex, locale, symbol, status, valueLength, w).
        nat (UNUM_NINE_DIGIT_SYMBOL + 1 - symbol))") auto

declare digit_loop.simps [simp del]

text \<open>
  The switch of \<^verbatim>\<open>GlobalizationNative_GetLocaleInfoString\<close>: from the locale, the
  status that \<open>GetLocale\<close> left and the requested field to the final status.
\<close>

fun GetLocaleInfoString_switch ::
  "externs \<Rightarrow> string \<Rightarrow> UErrorCode \<Rightarrow> LocaleStringData \<Rightarrow> int \<Rightarrow> world \<Rightarrow> UErrorCode \<times> world" where
  "GetLocaleInfoString_switch ex locale status LocalizedDisplayName valueLength w =
     (let (written, status') =
            uloc_getDisplayName ex locale (DetectDefaultLocaleName ex) valueLength status
      in (status', record_call (Uloc_getDisplayName status') (store 0 written w)))"
| "GetLocaleInfoString_switch ex locale status EnglishDisplayName valueLength w =
     (let (written, status') = uloc_getDisplayName ex locale ULOC_ENGLISH valueLength status
      in (status', record_call (Uloc_getDisplayName status') (store 0 written w)))"
| "GetLocaleInfoString_switch ex locale status NativeDisplayName valueLength w =
     (let (written, status') = uloc_getDisplayName ex locale locale valueLength status
      in (status', record_call (Uloc_getDisplayName status') (store 0 written w)))"
| "GetLocaleInfoString_switch ex locale status LocalizedLanguageName valueLength w =
     (let (written, status') =
            uloc_getDisplayLanguage ex locale (DetectDefaultLocaleName ex) valueLength status
      in (status', record_call (Uloc_getDisplayLanguage status') (store 0 written w)))"
| "GetLocaleInfoString_switch ex locale status EnglishLanguageName valueLength w =
     (let (written, status') = uloc_getDisplayLanguage ex locale ULOC_ENGLISH valueLength status
      in (status', record_call (Uloc_getDisplayLanguage status') (store 0 written w)))"
| "GetLocaleInfoString_switch ex locale status NativeLanguageName valueLength w =
     (let (written, status') = uloc_getDisplayLanguage ex locale locale valueLength status
      in (status', record_call (Uloc_getDisplayLanguage status') (store 0 written w)))"
| "GetLocaleInfoString_switch ex locale status EnglishCountryName valueLength w =
     (let (written, status') = uloc_getDisplayCountry ex locale ULOC_ENGLISH valueLength status
      in (status', record_call (Uloc_getDisplayCountry status') (store 0 written w)))"
| "GetLocaleInfoString_switch ex locale status NativeCountryName valueLength w =
     (let (written, status') = uloc_getDisplayCountry ex locale locale valueLength status
      in (status', record_call (Uloc_getDisplayCountry status') (store 0 written w)))"
| "GetLocaleInfoString_switch ex locale status ListSeparator valueLength w =
     GetLocaleInfoDecimalFormatSymbol ex locale UNUM_GROUPING_SEPARATOR_SYMBOL 0 valueLength w"
| "GetLocaleInfoString_switch ex locale status ThousandSeparator valueLength w =
     GetLocaleInfoDecimalFormatSymbol ex locale UNUM_GROUPING_SEPARATOR_SYMBOL 0 valueLength w"
| "GetLocaleInfoString_switch ex locale status DecimalSeparator valueLength w =
     GetLocaleInfoDecimalFormatSymbol ex locale UNUM_DECIMAL_SEPARATOR_SYMBOL 0 valueLength w"
| "GetLocaleInfoString_switch ex locale status Digits valueLength w =
     (let (status', w') =
            GetDigitSymbol ex locale status UNUM_ZERO_DIGIT_SYMBOL 0 0 valueLength w
      in digit_loop ex locale UNUM_ONE_DIGIT_SYMBOL status' valueLength w')"
| "GetLocaleInfoString_switch ex locale status MonetarySymbol valueLength w =
     GetLocaleInfoDecimalFormatSymbol ex locale UNUM_CURRENCY_SYMBOL 0 valueLength w"
| "GetLocaleInfoString_switch ex locale status Iso4217MonetarySymbol valueLength w =
     GetLocaleInfoDecimalFormatSymbol ex locale UNUM_INTL_CURRENCY_SYMBOL 0 valueLength w"
| "GetLocaleInfoString_switch ex locale status CurrencyEnglishName valueLength w =
     GetLocaleCurrencyName ex locale False 0 valueLength w"
| "GetLocaleInfoString_switch ex locale status CurrencyNativeName valueLength w =
     GetLocaleCurrencyName ex locale True 0 valueLength w"
| "GetLocaleInfoString_switch ex locale status MonetaryDecimalSeparator valueLength w =
     GetLocaleInfoDecimalFormatSymbol ex locale UNUM_MONETARY_SEPARATOR_SYMBOL 0 valueLength w"
| "GetLocaleInfoString_switch ex locale status MonetaryThousandSeparator valueLength w =
     GetLocaleInfoDecimalFormatSymbol ex locale UNUM_MONETARY_GROUPING_SEPARATOR_SYMBOL 0
       valueLength w"
| "GetLocaleInfoString_switch ex locale status AMDesignator valueLength w =
     GetLocaleInfoAmPm ex locale True 0 valueLength w"
| "GetLocaleInfoString_switch ex locale status PMDesignator valueLength w =
     GetLocaleInfoAmPm ex locale False 0 valueLength w"
| "GetLocaleInfoString_switch ex locale status PositiveSign valueLength w =
     GetLocaleInfoDecimalFormatSymbol ex locale UNUM_PLUS_SIGN_SYMBOL 0 valueLength w"
| "GetLocaleInfoString_switch ex locale status NegativeSign valueLength w =
     GetLocaleInfoDecimalFormatSymbol ex locale UNUM_MINUS_SIGN_SYMBOL 0 valueLength w"
| "GetLocaleInfoString_switch ex locale status Iso639LanguageTwoLetterName valueLength w =
     GetLocaleIso639LanguageTwoLetterName ex locale 0 valueLength w"
| "GetLocaleInfoString_switch ex locale status Iso639LanguageThreeLetterName valueLength w =
     GetLocaleIso639LanguageThreeLetterName ex locale 0 valueLength w"
| "GetLocaleInfoString_switch ex locale status Iso3166CountryName valueLength w =
     GetLocaleIso3166CountryName ex locale 0 valueLength w"
| "GetLocaleInfoString_switch ex locale status Iso3166CountryName2 valueLength w =
     GetLocaleIso3166CountryCode ex locale 0 valueLength w"
| "GetLocaleInfoString_switch ex locale status NaNSymbol valueLength w =
     GetLocaleInfoDecimalFormatSymbol ex locale UNUM_NAN_SYMBOL 0 valueLength w"
| "GetLocaleInfoString_switch ex locale status PositiveInfinitySymbol valueLength w =
     GetLocaleInfoDecimalFormatSymbol ex locale UNUM_INFINITY_SYMBOL 0 valueLength w"
| "GetLocaleInfoString_switch ex locale status ParentName valueLength w =
     (let (localeNameTemp, status1) = uloc_getParent ex locale ULOC_FULLNAME_CAPACITY status;
          w1 = record_call (Uloc_getParent status1) w
      in if U_SUCCESS status1
         then
           let (written, status2) = u_charsToUChars_safe ex localeNameTemp valueLength;
               w2 = store 0 written w1
           in if U_SUCCESS status2
              then (status2, w2\<lparr>buffer := FixupLocaleName ex (buffer w2) valueLength\<rparr>)
              else (status2, w2)
         else (status1, w1))"
| "GetLocaleInfoString_switch ex locale status PercentSymbol valueLength w =
     GetLocaleInfoDecimalFormatSymbol ex locale UNUM_PERCENT_SYMBOL 0 valueLength w"
| "GetLocaleInfoString_switch ex locale status PerMilleSymbol valueLength w =
     GetLocaleInfoDecimalFormatSymbol ex locale UNUM_PERMILL_SYMBOL 0 valueLength w"
| "GetLocaleInfoString_switch ex locale status Unlisted valueLength w =
     (U_UNSUPPORTED_ERROR, w)"

definition GlobalizationNative_GetLocaleInfoString ::
  "externs \<Rightarrow> UChar list \<Rightarrow> LocaleStringData \<Rightarrow> int \<Rightarrow> world \<Rightarrow> int \<times> world" where
  "GlobalizationNative_GetLocaleInfoString ex localeName localeStringData valueLength w =
     (let (locale, status) = GetLocale ex localeName ULOC_FULLNAME_CAPACITY False U_ZERO_ERROR
      in if U_FAILURE status then (UErrorCodeToBool U_ILLEGAL_ARGUMENT_ERROR, w)
         else
           let (status', w') =
                 GetLocaleInfoString_switch ex locale status localeStringData valueLength w
           in (UErrorCodeToBool status', w'))"

definition GlobalizationNative_GetLocaleTimeFormat ::
  "externs \<Rightarrow> UChar list \<Rightarrow> int \<Rightarrow> int \<Rightarrow> world \<Rightarrow> int \<times> world" where
  "GlobalizationNative_GetLocaleTimeFormat ex localeName shortFormat valueLength w =
     (let (locale, err) = GetLocale ex localeName ULOC_FULLNAME_CAPACITY False U_ZERO_ERROR
      in if U_FAILURE err then (UErrorCodeToBool U_ILLEGAL_ARGUMENT_ERROR, w)
         else
           let style = (if shortFormat \<noteq> 0 then UDAT_SHORT else UDAT_MEDIUM);
               (pFormat, err1) = udat_open ex style UDAT_NONE locale err;
               w1 = record_call (Udat_open pFormat err1) w
           in if U_FAILURE err1 then (UErrorCodeToBool err1, w1)
              else
                let (written, err2) = udat_toPattern ex pFormat False valueLength err1;
                    w2 = record_call (Udat_toPattern pFormat err2) (store 0 written w1);
                    w3 = record_call (Udat_close pFormat) w2
                in (UErrorCodeToBool err2, w3))"

subsection \<open>Resources and statuses in a sequence of calls\<close>

text \<open>
  What a sequence of calls leaves open: the formatters opened (with a success status)
  and not closed, and the memory allocated and not freed.
\<close>

datatype resource = NumberFormat handle | DateFormat handle | Memory

fun track :: "resource list \<Rightarrow> call \<Rightarrow> resource list" where
  "track rs (Unum_open h st) = (if U_SUCCESS st then NumberFormat h # rs else rs)"
| "track rs (Udat_open h st) = (if U_SUCCESS st then DateFormat h # rs else rs)"
| "track rs (Unum_close h) = remove1 (NumberFormat h) rs"
| "track rs (Udat_close h) = remove1 (DateFormat h) rs"
| "track rs (Calloc n ok) = (if ok then Memory # rs else rs)"
| "track rs Free = remove1 Memory rs"
| "track rs c = rs"

definition live :: "call list \<Rightarrow> resource list" where
  "live cs = foldl track [] cs"

text \<open>The status that a call of the library left, when it has one.\<close>

fun status_of :: "call \<Rightarrow> UErrorCode option" where
  "status_of (Uloc_getDisplayName st) = Some st"
| "status_of (Uloc_getDisplayLanguage st) = Some st"
| "status_of (Uloc_getDisplayCountry st) = Some st"
| "status_of (Uloc_getLanguage st) = Some st"
| "status_of (Uloc_getCountry st) = Some st"
| "status_of (Uloc_getParent st) = Some st"
| "status_of (Ucurr_forLocale st) = Some st"
| "status_of (Ucurr_getName st) = Some st"
| "status_of (Unum_open h st) = Some st"
| "status_of (Unum_getSymbol h symbol off cap st) = Some st"
| "status_of (Udat_open h st) = Some st"
| "status_of (Udat_getSymbols h st) = Some st"
| "status_of (Udat_toPattern h st) = Some st"
| "status_of c = None"

text \<open>The status that the last call of the library left, if any call left one.\<close>

definition last_library_status :: "call list \<Rightarrow> UErrorCode option" where
  "last_library_status cs =
     foldl (\<lambda>acc c. case status_of c of Some st \<Rightarrow> Some st | None \<Rightarrow> acc) None cs"

text \<open>The calls that a function added to the ones made before it.\<close>

definition new_calls :: "world \<Rightarrow> world \<Rightarrow> call list" where
  "new_calls w w' = drop (length (calls w)) (calls w')"

subsection \<open>A small library, for evaluation\<close>

text \<open>
  An instance of \<open>externs\<close> on which the functions can be run. It knows two locales.
  A string of the library is handed over as the library's \<^verbatim>\<open>u_terminateUChars\<close> does:
  whole and terminated when it is shorter than the capacity, whole and with a warning
  when it just fits, cut and with the overflow status otherwise.
\<close>

definition ustr :: "string \<Rightarrow> UChar list" where
  "ustr s = map (\<lambda>c. of_nat (of_char c)) s"

definition U_STRING_NOT_TERMINATED_WARNING :: UErrorCode where
  "U_STRING_NOT_TERMINATED_WARNING = - 124"

definition toy_fill :: "UChar list \<Rightarrow> int \<Rightarrow> UErrorCode \<Rightarrow> UChar list \<times> UErrorCode" where
  "toy_fill s cap st =
     (if U_FAILURE st then ([], st)
      else if cap < 0 then ([], U_ILLEGAL_ARGUMENT_ERROR)
      else if int (length s) < cap then (s @ [0], st)
      else if int (length s) = cap then (s, U_STRING_NOT_TERMINATED_WARNING)
      else (take (nat cap) s, U_BUFFER_OVERFLOW_ERROR))"

definition toy_preflight :: "string \<Rightarrow> int \<Rightarrow> UErrorCode \<Rightarrow> int \<times> string \<times> UErrorCode" where
  "toy_preflight s cap st =
     (if U_FAILURE st then (0, [], st)
      else if int (length s) < cap then (int (length s), s, st)
      else (int (length s), [], U_BUFFER_OVERFLOW_ERROR))"

definition toy_symbol :: "UNumberFormatSymbol \<Rightarrow> UChar list" where
  "toy_symbol symbol =
     (if symbol = UNUM_DECIMAL_SEPARATOR_SYMBOL then ustr ''.''
      else if symbol = UNUM_GROUPING_SEPARATOR_SYMBOL then ustr '',''
      else if symbol = UNUM_ZERO_DIGIT_SYMBOL then ustr ''0''
      else if UNUM_ONE_DIGIT_SYMBOL \<le> symbol \<and> symbol \<le> UNUM_NINE_DIGIT_SYMBOL
      then [of_int (49 + (symbol - UNUM_ONE_DIGIT_SYMBOL))]
      else ustr ''?'')"

fun toy_fixup :: "UChar list \<Rightarrow> nat \<Rightarrow> UChar list" where
  "toy_fixup [] n = []"
| "toy_fixup (c # cs) n =
     (if n = 0 \<or> c = 0 then c # cs
      else (if c = 95 then 45 else c) # toy_fixup cs (n - 1))"

definition toy :: externs where
  "toy = \<lparr>
     GetLocale = (\<lambda>localeName cap canonicalize st.
       if localeName = ustr ''en-US'' then (''en_US'', st)
       else if localeName = ustr ''sr-Latn-RS'' then (''sr_Latn_RS'', st)
       else ([], U_ILLEGAL_ARGUMENT_ERROR)),
     DetectDefaultLocaleName = ''en_US'',
     FixupLocaleName = (\<lambda>mem n. toy_fixup mem (nat n)),
     u_charsToUChars_safe = (\<lambda>s n.
       if int (length s) \<ge> n then ([], U_BUFFER_OVERFLOW_ERROR) else (ustr s @ [0], U_ZERO_ERROR)),
     calloc = (\<lambda>n. True),
     uloc_getDisplayName = (\<lambda>locale displayLocale cap st.
       toy_fill (ustr (if locale = ''en_US'' then ''English (United States)''
                       else ''Serbian (Latin, Serbia)'')) cap st),
     uloc_getDisplayLanguage = (\<lambda>locale displayLocale cap st.
       toy_fill (ustr (if locale = ''en_US'' then ''English'' else ''Serbian'')) cap st),
     uloc_getDisplayCountry = (\<lambda>locale displayLocale cap st.
       toy_fill (ustr (if locale = ''en_US'' then ''United States'' else ''Serbia'')) cap st),
     uloc_getLanguage = (\<lambda>locale cap st. toy_preflight (take 2 locale) cap st),
     uloc_getCountry = (\<lambda>locale cap st.
       toy_preflight (if locale = ''en_US'' then ''US'' else ''RS'') cap st),
     uloc_getISO3Language = (\<lambda>locale. if locale = ''en_US'' then ''eng'' else ''srp''),
     uloc_getISO3Country = (\<lambda>locale. if locale = ''en_US'' then ''USA'' else ''SRB''),
     uloc_getParent = (\<lambda>locale cap st.
       (if locale = ''sr_Latn_RS'' then ''sr_Latn'' else ''en'', st)),
     ucurr_forLocale = (\<lambda>locale cap st.
       toy_fill (ustr (if locale = ''en_US'' then ''USD'' else ''RSD'')) cap st),
     ucurr_getName = (\<lambda>currency locale nameStyle st.
       (ustr (if currency = ustr ''USD'' @ [0] then ''US Dollar'' else ''Serbian Dinar''), st)),
     unum_open = (\<lambda>style locale st. (1, st)),
     unum_getSymbol = (\<lambda>h symbol cap st. toy_fill (toy_symbol symbol) cap st),
     udat_open = (\<lambda>timeStyle dateStyle locale st. (2, st)),
     udat_getSymbols = (\<lambda>h type i cap st. toy_fill (ustr (if i = 0 then ''AM'' else ''PM'')) cap st),
     udat_toPattern = (\<lambda>h localized cap st. toy_fill (ustr ''h:mm a'') cap st)
   \<rparr>"

text \<open>An array of twenty characters, and no call made yet.\<close>

definition w0 :: world where
  "w0 = \<lparr>buffer = replicate 20 65535, calls = []\<rparr>"




text \<open>A library that cannot open a number format.\<close>

definition toy_no_format :: externs where
  "toy_no_format = toy\<lparr>unum_open := (\<lambda>style locale st. (0, U_MEMORY_ALLOCATION_ERROR))\<rparr>"



subsection \<open>The ten digit queries\<close>

text \<open>
  The ten queries of the \<^verbatim>\<open>Digits\<close> case as the specification describes them, in
  terms of the library alone: the symbols in order, each with the index \<open>i\<close> of its
  digit. One query opens a number format, asks it for the symbol with
  \<^verbatim>\<open>valueLength - i\<close> characters of room, stores the answer at offset \<open>i\<close> and
  closes the format; if the format cannot be opened nothing is asked or stored. After
  a failure nothing more is asked.
\<close>

definition digit_table :: "(UNumberFormatSymbol \<times> int) list" where
  "digit_table =
     [(UNUM_ZERO_DIGIT_SYMBOL, 0),
      (UNUM_ONE_DIGIT_SYMBOL, 1),
      (UNUM_ONE_DIGIT_SYMBOL + 1, 2),
      (UNUM_ONE_DIGIT_SYMBOL + 2, 3),
      (UNUM_ONE_DIGIT_SYMBOL + 3, 4),
      (UNUM_ONE_DIGIT_SYMBOL + 4, 5),
      (UNUM_ONE_DIGIT_SYMBOL + 5, 6),
      (UNUM_ONE_DIGIT_SYMBOL + 6, 7),
      (UNUM_ONE_DIGIT_SYMBOL + 7, 8),
      (UNUM_NINE_DIGIT_SYMBOL, 9)]"

definition digit_query ::
  "externs \<Rightarrow> string \<Rightarrow> int \<Rightarrow> UNumberFormatSymbol \<Rightarrow> int \<Rightarrow> world \<Rightarrow> UErrorCode \<times> world" where
  "digit_query ex locale valueLength symbol i w =
     (let (h, st) = unum_open ex UNUM_DECIMAL locale U_ZERO_ERROR
      in if U_FAILURE st then (st, w\<lparr>calls := calls w @ [Unum_open h st]\<rparr>)
         else
           let (answer, st') = unum_getSymbol ex h symbol (int32_sub valueLength i) st
           in (st', w\<lparr>buffer := poke (buffer w) (nat i) answer,
                      calls := calls w @
                        [Unum_open h st,
                         Unum_getSymbol h symbol (nat i) (int32_sub valueLength i) st',
                         Unum_close h]\<rparr>))"

fun digit_queries ::
  "externs \<Rightarrow> string \<Rightarrow> int \<Rightarrow> (UNumberFormatSymbol \<times> int) list \<Rightarrow> UErrorCode \<times> world
     \<Rightarrow> UErrorCode \<times> world" where
  "digit_queries ex locale valueLength [] (status, w) = (status, w)"
| "digit_queries ex locale valueLength ((symbol, i) # rest) (status, w) =
     digit_queries ex locale valueLength rest
       (if U_FAILURE status then (status, w)
        else digit_query ex locale valueLength symbol i w)"






subsection \<open>The library's answer for a field\<close>







subsection \<open>Functions that only add to the state\<close>

text \<open>
  A function on the state is \<open>framed\<close> when its status does not depend on the state,
  the array it leaves depends on the array it found only, and the calls it makes are
  added to the ones made before and depend on nothing in the state. It \<open>stores\<close>
  when, moreover, the array it leaves is the array it found with a fixed list of
  character strings stored at fixed offsets.
\<close>

definition pokes :: "UChar list \<Rightarrow> (nat \<times> UChar list) list \<Rightarrow> UChar list" where
  "pokes mem ws = foldl (\<lambda>m (off, xs). poke m off xs) mem ws"

definition framed ::
  "(world \<Rightarrow> UErrorCode \<times> world) \<Rightarrow> UErrorCode \<Rightarrow> (UChar list \<Rightarrow> UChar list) \<Rightarrow> call list \<Rightarrow> bool" where
  "framed f S B C = (\<forall>w. f w = (S, w\<lparr>buffer := B (buffer w), calls := calls w @ C\<rparr>))"

definition stores ::
  "(world \<Rightarrow> UErrorCode \<times> world) \<Rightarrow> UErrorCode \<Rightarrow> (nat \<times> UChar list) list \<Rightarrow> call list \<Rightarrow> bool" where
  "stores f S ws C = (\<forall>w. f w = (S, w\<lparr>buffer := pokes (buffer w) ws, calls := calls w @ C\<rparr>))"

text \<open>
  \<open>passes C S\<close> says that a failure status left by the last call of the library in
  \<open>C\<close> shows as a failure status \<open>S\<close>. \<open>origin ex n conv C S\<close> says where a status
  \<open>S\<close> comes from: it is the status that the last call of the library in \<open>C\<close> left,
  or one of the four statuses that the file sets itself, or, for a field whose name
  the runtime converts (\<open>conv\<close>), a status of the conversion
  \<open>u_charsToUChars_safe\<close>.
\<close>

definition passes :: "call list \<Rightarrow> UErrorCode \<Rightarrow> bool" where
  "passes C S = (case last_library_status C of None \<Rightarrow> True | Some s \<Rightarrow> U_FAILURE s \<longrightarrow> U_FAILURE S)"

definition origin :: "externs \<Rightarrow> int \<Rightarrow> bool \<Rightarrow> call list \<Rightarrow> UErrorCode \<Rightarrow> bool" where
  "origin ex n conv C S =
     (last_library_status C = Some S
      \<or> S = U_ILLEGAL_ARGUMENT_ERROR \<or> S = U_BUFFER_OVERFLOW_ERROR
      \<or> S = U_MEMORY_ALLOCATION_ERROR \<or> S = U_UNSUPPORTED_ERROR
      \<or> (conv \<and> (\<exists>s. S = snd (u_charsToUChars_safe ex s n))))"

text \<open>The fields whose name the file has converted by \<open>u_charsToUChars_safe\<close>.\<close>

fun converts :: "LocaleStringData \<Rightarrow> bool" where
  "converts Iso639LanguageTwoLetterName = True"
| "converts Iso639LanguageThreeLetterName = True"
| "converts Iso3166CountryName = True"
| "converts Iso3166CountryName2 = True"
| "converts ParentName = True"
| "converts field = False"

text \<open>
  The fields at which the file sets no status of its own: the status at the end of
  the switch is the one the library left.
\<close>

fun library_status_only :: "LocaleStringData \<Rightarrow> bool" where
  "library_status_only CurrencyEnglishName = False"
| "library_status_only CurrencyNativeName = False"
| "library_status_only Iso639LanguageTwoLetterName = False"
| "library_status_only Iso639LanguageThreeLetterName = False"
| "library_status_only Iso3166CountryName = False"
| "library_status_only Iso3166CountryName2 = False"
| "library_status_only ParentName = False"
| "library_status_only Unlisted = False"
| "library_status_only field = True"

section \<open>Properties\<close>

subsection \<open>Statuses\<close>

lemmas status_defs = U_ZERO_ERROR_def U_ILLEGAL_ARGUMENT_ERROR_def U_MEMORY_ALLOCATION_ERROR_def
  U_BUFFER_OVERFLOW_ERROR_def U_UNSUPPORTED_ERROR_def U_SUCCESS_def U_FAILURE_def

lemma U_FAILURE_iff: "U_FAILURE st \<longleftrightarrow> \<not> U_SUCCESS st"
  by (auto simp: status_defs)

lemma UErrorCodeToBool_failures:
  "UErrorCodeToBool U_ILLEGAL_ARGUMENT_ERROR = 0"
  "UErrorCodeToBool U_UNSUPPORTED_ERROR = 0"
  "UErrorCodeToBool U_BUFFER_OVERFLOW_ERROR = 0"
  "UErrorCodeToBool U_MEMORY_ALLOCATION_ERROR = 0"
  by (simp_all add: UErrorCodeToBool_def status_defs)

lemma GetLocale_cases:
  obtains loc st where
    "GetLocale ex localeName ULOC_FULLNAME_CAPACITY False U_ZERO_ERROR = (loc, st)"
  by (cases "GetLocale ex localeName ULOC_FULLNAME_CAPACITY False U_ZERO_ERROR")

subsection \<open>Stores and resources\<close>

lemma length_poke [simp]: "length (poke mem off xs) = length mem"
  by (simp add: poke_def min_def)

lemma nth_poke:
  "i < length mem \<Longrightarrow>
   poke mem off xs ! i = (if off \<le> i \<and> i < off + length xs then xs ! (i - off) else mem ! i)"
  by (auto simp: poke_def nth_append min_def)

lemma poke_then_terminate:
  "poke (poke mem off xs) (off + length xs) [z] = poke mem off (xs @ [z])"
  by (rule nth_equalityI) (auto simp: nth_poke nth_append)

lemma poke_read_back:
  "off + length xs \<le> length mem \<Longrightarrow> take (length xs) (drop off (poke mem off xs)) = xs"
  by (rule nth_equalityI) (auto simp: nth_poke)

lemma u_strncpy_whole: "u_strncpy src (int (length src)) = src"
  by (simp add: u_strncpy_def)

lemma live_append: "live (cs @ ds) = foldl track (live cs) ds"
  by (simp add: live_def)

subsection \<open>Every function of the file is framed\<close>

lemma pokes_simps [simp]:
  "pokes mem [] = mem"
  "pokes mem ((off, xs) # ws) = pokes (poke mem off xs) ws"
  by (simp_all add: pokes_def)

lemma pokes_append: "pokes mem (ws @ vs) = pokes (pokes mem ws) vs"
  by (simp add: pokes_def)

lemma last_library_status_simps:
  "last_library_status [] = None"
  "last_library_status (cs @ [c]) = (case status_of c of Some st \<Rightarrow> Some st | None \<Rightarrow> last_library_status cs)"
  by (simp_all add: last_library_status_def split: option.splits)

lemma last_library_status_append:
  "last_library_status (cs @ ds) = (case last_library_status ds of Some st \<Rightarrow> Some st | None \<Rightarrow> last_library_status cs)"
proof (induction ds rule: rev_induct)
  case Nil
  then show ?case by (simp add: last_library_status_simps)
next
  case (snoc d ds)
  have "last_library_status (cs @ ds @ [d]) = last_library_status ((cs @ ds) @ [d])" by simp
  also have "\<dots> = (case status_of d of Some st \<Rightarrow> Some st | None \<Rightarrow> last_library_status (cs @ ds))"
    by (rule last_library_status_simps)
  finally show ?case using snoc
    by (simp add: last_library_status_simps split: option.splits)
qed

lemma framedI:
  "(\<And>w. f w = (S, w\<lparr>buffer := B (buffer w), calls := calls w @ C\<rparr>)) \<Longrightarrow> framed f S B C"
  by (simp add: framed_def)

lemma framedD:
  "framed f S B C \<Longrightarrow> f w = (S, w\<lparr>buffer := B (buffer w), calls := calls w @ C\<rparr>)"
  by (simp add: framed_def)

lemma storesI:
  "(\<And>w. f w = (S, w\<lparr>buffer := pokes (buffer w) ws, calls := calls w @ C\<rparr>)) \<Longrightarrow> stores f S ws C"
  by (simp add: stores_def)

lemma storesD:
  "stores f S ws C \<Longrightarrow> f w = (S, w\<lparr>buffer := pokes (buffer w) ws, calls := calls w @ C\<rparr>)"
  by (simp add: stores_def)

lemma stores_framed: "stores f S ws C \<Longrightarrow> framed f S (\<lambda>b. pokes b ws) C"
  by (simp add: stores_def framed_def)

lemma U_FAILURE_consts:
  "U_FAILURE U_ILLEGAL_ARGUMENT_ERROR" "U_FAILURE U_MEMORY_ALLOCATION_ERROR"
  "U_FAILURE U_BUFFER_OVERFLOW_ERROR" "U_FAILURE U_UNSUPPORTED_ERROR"
  "\<not> U_FAILURE U_ZERO_ERROR" "U_SUCCESS U_ZERO_ERROR"
  by (simp_all add: status_defs)

lemma passes_last: "last_library_status C = Some S \<Longrightarrow> passes C S"
  by (simp add: passes_def)

lemma origin_last: "last_library_status C = Some S \<Longrightarrow> origin ex n conv C S"
  by (simp add: origin_def)

lemma origin_own:
  "origin ex n conv C U_ILLEGAL_ARGUMENT_ERROR" "origin ex n conv C U_BUFFER_OVERFLOW_ERROR"
  "origin ex n conv C U_MEMORY_ALLOCATION_ERROR" "origin ex n conv C U_UNSUPPORTED_ERROR"
  by (simp_all add: origin_def)

lemma origin_conversion:
  "u_charsToUChars_safe ex s n = (converted, S) \<Longrightarrow> origin ex n True C S"
  unfolding origin_def by (metis snd_conv)

lemma stores_exI:
  assumes "\<And>w. f w = (S, w\<lparr>buffer := pokes (buffer w) ws, calls := calls w @ C\<rparr>)"
    and "passes C S" and "origin ex n conv C S"
  shows "\<exists>S ws C. stores f S ws C \<and> passes C S \<and> origin ex n conv C S"
  using assms unfolding stores_def by blast

lemma stores_last_exI:
  assumes "\<And>w. f w = (S, w\<lparr>buffer := pokes (buffer w) ws, calls := calls w @ C\<rparr>)"
    and "last_library_status C = Some S"
  shows "\<exists>S ws C. stores f S ws C \<and> last_library_status C = Some S"
  using assms unfolding stores_def by blast

lemma DecimalFormatSymbol_stores:
  "\<exists>S ws C. stores (GetLocaleInfoDecimalFormatSymbol ex locale symbol val valueLength) S ws C
     \<and> last_library_status C = Some S"
proof -
  obtain h st where o: "unum_open ex UNUM_DECIMAL locale U_ZERO_ERROR = (h, st)"
    by (cases "unum_open ex UNUM_DECIMAL locale U_ZERO_ERROR")
  obtain wr st' where g: "unum_getSymbol ex h symbol valueLength st = (wr, st')"
    by (cases "unum_getSymbol ex h symbol valueLength st")
  show ?thesis
  proof (cases "U_FAILURE st")
    case True
    then show ?thesis
      by (intro stores_last_exI [where S = st and ws = "[]" and C = "[Unum_open h st]"])
        (simp_all add: GetLocaleInfoDecimalFormatSymbol_def o record_call_def
          last_library_status_def)
  next
    case False
    then show ?thesis
      by (intro stores_last_exI [where S = st' and ws = "[(val, wr)]"
            and C = "[Unum_open h st, Unum_getSymbol h symbol val valueLength st', Unum_close h]"])
        (simp_all add: GetLocaleInfoDecimalFormatSymbol_def o g record_call_def store_def
          last_library_status_def)
  qed
qed

lemma GetDigitSymbol_stores:
  assumes "last_library_status C0 = Some prev"
  shows "\<exists>S ws C. stores (GetDigitSymbol ex locale prev symbol digit val valueLength) S ws C
     \<and> last_library_status (C0 @ C) = Some S"
proof (cases "U_FAILURE prev")
  case True
  then have "stores (GetDigitSymbol ex locale prev symbol digit val valueLength) prev [] []"
    by (simp add: stores_def GetDigitSymbol_def)
  with assms show ?thesis by (metis append_Nil2)
next
  case False
  then have e: "GetDigitSymbol ex locale prev symbol digit val valueLength
     = GetLocaleInfoDecimalFormatSymbol ex locale symbol (val + nat digit)
         (int32_sub valueLength digit)"
    by (simp add: GetDigitSymbol_def fun_eq_iff)
  from DecimalFormatSymbol_stores
    [of ex "locale" symbol "val + nat digit" "int32_sub valueLength digit"]
  obtain S ws C where
    "stores (GetLocaleInfoDecimalFormatSymbol ex locale symbol (val + nat digit)
       (int32_sub valueLength digit)) S ws C"
    and "last_library_status C = Some S" by blast
  then show ?thesis unfolding e
    by (metis last_library_status_append option.simps(5))
qed

lemma digit_loop_stores:
  assumes "last_library_status C0 = Some status"
  shows "\<exists>S ws C. stores (digit_loop ex locale symbol status valueLength) S ws C
     \<and> last_library_status (C0 @ C) = Some S"
  using assms
proof (induction "nat (UNUM_NINE_DIGIT_SYMBOL + 1 - symbol)" arbitrary: symbol status C0)
  case 0
  then have "\<not> symbol \<le> UNUM_NINE_DIGIT_SYMBOL" by simp
  then have "stores (digit_loop ex locale symbol status valueLength) status [] []"
    by (simp add: stores_def digit_loop.simps)
  with 0 show ?case by (metis append_Nil2)
next
  case (Suc n)
  then have le: "symbol \<le> UNUM_NINE_DIGIT_SYMBOL" by simp
  let ?i = "symbol - UNUM_ONE_DIGIT_SYMBOL + 1"
  from GetDigitSymbol_stores [OF Suc.prems, of ex "locale" symbol ?i 0 valueLength]
  obtain S1 ws1 C1 where
    f1: "stores (GetDigitSymbol ex locale status symbol ?i 0 valueLength) S1 ws1 C1"
    and l1: "last_library_status (C0 @ C1) = Some S1" by blast
  from Suc.hyps(2) have n: "n = nat (UNUM_NINE_DIGIT_SYMBOL + 1 - (symbol + 1))" by simp
  from Suc.hyps(1) [OF n l1]
  obtain S2 ws2 C2 where f2: "stores (digit_loop ex locale (symbol + 1) S1 valueLength) S2 ws2 C2"
    and l2: "last_library_status ((C0 @ C1) @ C2) = Some S2" by blast
  have "stores (digit_loop ex locale symbol status valueLength) S2 (ws1 @ ws2) (C1 @ C2)"
    unfolding stores_def
  proof
    fix w
    show "digit_loop ex locale symbol status valueLength w =
         (S2, w\<lparr>buffer := pokes (buffer w) (ws1 @ ws2), calls := calls w @ C1 @ C2\<rparr>)"
      using le
      by (subst digit_loop.simps) (simp add: storesD [OF f1] storesD [OF f2] pokes_append)
  qed
  with l2 show ?case by (metis append.assoc)
qed

lemma AmPm_stores:
  "\<exists>S ws C. stores (GetLocaleInfoAmPm ex locale am val valueLength) S ws C
     \<and> last_library_status C = Some S"
proof -
  obtain h st where o: "udat_open ex UDAT_DEFAULT UDAT_DEFAULT locale U_ZERO_ERROR = (h, st)"
    by (cases "udat_open ex UDAT_DEFAULT UDAT_DEFAULT locale U_ZERO_ERROR")
  obtain wr st' where
    g: "udat_getSymbols ex h UDAT_AM_PMS (if am then 0 else 1) valueLength st = (wr, st')"
    by (cases "udat_getSymbols ex h UDAT_AM_PMS (if am then 0 else 1) valueLength st")
  show ?thesis
  proof (cases "U_FAILURE st")
    case True
    then show ?thesis
      by (intro stores_last_exI [where S = st and ws = "[]" and C = "[Udat_open h st]"])
        (simp_all add: GetLocaleInfoAmPm_def o record_call_def last_library_status_def)
  next
    case False
    then show ?thesis
      by (intro stores_last_exI [where S = st' and ws = "[(val, wr)]"
            and C = "[Udat_open h st, Udat_getSymbols h st', Udat_close h]"])
        (simp_all add: GetLocaleInfoAmPm_def o g record_call_def store_def
          last_library_status_def)
  qed
qed

lemma Iso639LanguageTwoLetterName_stores:
  "\<exists>S ws C. stores (GetLocaleIso639LanguageTwoLetterName ex locale val valueLength) S ws C
     \<and> passes C S \<and> origin ex valueLength True C S"
proof -
  obtain n u st0 where a: "uloc_getLanguage ex locale 0 U_ZERO_ERROR = (n, u, st0)"
    by (cases "uloc_getLanguage ex locale 0 U_ZERO_ERROR")
  obtain m buf st1 where b: "uloc_getLanguage ex locale (n + 1) U_ZERO_ERROR = (m, buf, st1)"
    by (cases "uloc_getLanguage ex locale (n + 1) U_ZERO_ERROR")
  obtain wr st2 where c: "u_charsToUChars_safe ex buf valueLength = (wr, st2)"
    by (cases "u_charsToUChars_safe ex buf valueLength")
  consider "\<not> calloc ex (n + 1)" | "calloc ex (n + 1)" "U_SUCCESS st1"
    | "calloc ex (n + 1)" "\<not> U_SUCCESS st1"
    by blast
  then show ?thesis
  proof cases
    case 1
    then show ?thesis
      by (intro stores_exI [where S = U_MEMORY_ALLOCATION_ERROR and ws = "[]"
            and C = "[Uloc_getLanguage st0, Calloc (n + 1) False]"])
        (simp_all add: GetLocaleIso639LanguageTwoLetterName_def a record_call_def passes_def
          last_library_status_def U_FAILURE_consts origin_own)
  next
    case 2
    then show ?thesis
      by (intro stores_exI [where S = st2 and ws = "[(val, wr)]"
            and C = "[Uloc_getLanguage st0, Calloc (n + 1) True, Uloc_getLanguage st1, Free]"])
        (simp_all add: GetLocaleIso639LanguageTwoLetterName_def a b c record_call_def store_def
          passes_def last_library_status_def U_FAILURE_iff origin_conversion [OF c])
  next
    case 3
    then show ?thesis
      by (intro stores_exI [where S = st1 and ws = "[]"
            and C = "[Uloc_getLanguage st0, Calloc (n + 1) True, Uloc_getLanguage st1, Free]"])
        (simp_all add: GetLocaleIso639LanguageTwoLetterName_def a b record_call_def
          passes_def last_library_status_def origin_last)
  qed
qed

lemma Iso3166CountryName_stores:
  "\<exists>S ws C. stores (GetLocaleIso3166CountryName ex locale val valueLength) S ws C
     \<and> passes C S \<and> origin ex valueLength True C S"
proof -
  obtain n u st0 where a: "uloc_getCountry ex locale 0 U_ZERO_ERROR = (n, u, st0)"
    by (cases "uloc_getCountry ex locale 0 U_ZERO_ERROR")
  obtain m buf st1 where b: "uloc_getCountry ex locale (n + 1) U_ZERO_ERROR = (m, buf, st1)"
    by (cases "uloc_getCountry ex locale (n + 1) U_ZERO_ERROR")
  obtain wr st2 where c: "u_charsToUChars_safe ex buf valueLength = (wr, st2)"
    by (cases "u_charsToUChars_safe ex buf valueLength")
  consider "\<not> calloc ex (n + 1)" | "calloc ex (n + 1)" "U_SUCCESS st1"
    | "calloc ex (n + 1)" "\<not> U_SUCCESS st1"
    by blast
  then show ?thesis
  proof cases
    case 1
    then show ?thesis
      by (intro stores_exI [where S = U_MEMORY_ALLOCATION_ERROR and ws = "[]"
            and C = "[Uloc_getCountry st0, Calloc (n + 1) False]"])
        (simp_all add: GetLocaleIso3166CountryName_def a record_call_def passes_def
          last_library_status_def U_FAILURE_consts origin_own)
  next
    case 2
    then show ?thesis
      by (intro stores_exI [where S = st2 and ws = "[(val, wr)]"
            and C = "[Uloc_getCountry st0, Calloc (n + 1) True, Uloc_getCountry st1, Free]"])
        (simp_all add: GetLocaleIso3166CountryName_def a b c record_call_def store_def
          passes_def last_library_status_def U_FAILURE_iff origin_conversion [OF c])
  next
    case 3
    then show ?thesis
      by (intro stores_exI [where S = st1 and ws = "[]"
            and C = "[Uloc_getCountry st0, Calloc (n + 1) True, Uloc_getCountry st1, Free]"])
        (simp_all add: GetLocaleIso3166CountryName_def a b record_call_def
          passes_def last_library_status_def origin_last)
  qed
qed

lemma Iso639LanguageThreeLetterName_stores:
  "\<exists>S ws C. stores (GetLocaleIso639LanguageThreeLetterName ex locale val valueLength) S ws C
     \<and> passes C S \<and> origin ex valueLength True C S"
proof -
  obtain wr st where
    c: "u_charsToUChars_safe ex (uloc_getISO3Language ex locale) valueLength = (wr, st)"
    by (cases "u_charsToUChars_safe ex (uloc_getISO3Language ex locale) valueLength")
  show ?thesis
  proof (cases "uloc_getISO3Language ex locale = []")
    case True
    then show ?thesis
      by (intro stores_exI [where S = U_ILLEGAL_ARGUMENT_ERROR and ws = "[]"
            and C = "[Uloc_getISO3Language]"])
        (simp_all add: GetLocaleIso639LanguageThreeLetterName_def record_call_def passes_def
          last_library_status_def origin_own)
  next
    case False
    then show ?thesis
      by (intro stores_exI [where S = st and ws = "[(val, wr)]"
            and C = "[Uloc_getISO3Language]"])
        (simp_all add: GetLocaleIso639LanguageThreeLetterName_def c record_call_def store_def
          passes_def last_library_status_def origin_conversion [OF c])
  qed
qed

lemma Iso3166CountryCode_stores:
  "\<exists>S ws C. stores (GetLocaleIso3166CountryCode ex locale val valueLength) S ws C
     \<and> passes C S \<and> origin ex valueLength True C S"
proof -
  obtain wr st where
    c: "u_charsToUChars_safe ex (uloc_getISO3Country ex locale) valueLength = (wr, st)"
    by (cases "u_charsToUChars_safe ex (uloc_getISO3Country ex locale) valueLength")
  show ?thesis
  proof (cases "uloc_getISO3Country ex locale = []")
    case True
    then show ?thesis
      by (intro stores_exI [where S = U_ILLEGAL_ARGUMENT_ERROR and ws = "[]"
            and C = "[Uloc_getISO3Country]"])
        (simp_all add: GetLocaleIso3166CountryCode_def record_call_def passes_def
          last_library_status_def origin_own)
  next
    case False
    then show ?thesis
      by (intro stores_exI [where S = st and ws = "[(val, wr)]"
            and C = "[Uloc_getISO3Country]"])
        (simp_all add: GetLocaleIso3166CountryCode_def c record_call_def store_def
          passes_def last_library_status_def origin_conversion [OF c])
  qed
qed

lemma CurrencyName_stores:
  "\<exists>S ws C. stores (GetLocaleCurrencyName ex locale nativeName val valueLength) S ws C
     \<and> passes C S \<and> origin ex valueLength False C S"
proof -
  obtain cur st where a: "ucurr_forLocale ex locale 4 U_ZERO_ERROR = (cur, st)"
    by (cases "ucurr_forLocale ex locale 4 U_ZERO_ERROR")
  obtain name st' where
    b: "ucurr_getName ex cur (if nativeName then locale else ULOC_US) UCURR_LONG_NAME st
          = (name, st')"
    by (cases "ucurr_getName ex cur (if nativeName then locale else ULOC_US) UCURR_LONG_NAME st")
  consider "\<not> U_SUCCESS st" | "U_SUCCESS st" "\<not> U_SUCCESS st'"
    | "U_SUCCESS st" "U_SUCCESS st'" "int (length name) \<ge> valueLength"
    | "U_SUCCESS st" "U_SUCCESS st'" "\<not> int (length name) \<ge> valueLength"
    by blast
  then show ?thesis
  proof cases
    case 1
    then show ?thesis
      by (intro stores_exI [where S = st and ws = "[]" and C = "[Ucurr_forLocale st]"])
        (simp_all add: GetLocaleCurrencyName_def a record_call_def passes_def
          last_library_status_def origin_last)
  next
    case 2
    then show ?thesis
      by (intro stores_exI [where S = st' and ws = "[]"
            and C = "[Ucurr_forLocale st, Ucurr_getName st']"])
        (simp_all add: GetLocaleCurrencyName_def a b record_call_def passes_def
          last_library_status_def origin_last)
  next
    case 3
    then show ?thesis
      by (intro stores_exI [where S = U_BUFFER_OVERFLOW_ERROR and ws = "[]"
            and C = "[Ucurr_forLocale st, Ucurr_getName st']"])
        (simp_all add: GetLocaleCurrencyName_def a b record_call_def passes_def
          last_library_status_def U_FAILURE_iff origin_own)
  next
    case 4
    then show ?thesis
      by (intro stores_exI [where S = st'
            and ws = "[(val, u_strncpy name (int (length name))), (val + length name, [0])]"
            and C = "[Ucurr_forLocale st, Ucurr_getName st']"])
        (simp_all add: GetLocaleCurrencyName_def a b record_call_def store_def passes_def
          last_library_status_def origin_last)
  qed
qed

lemma display_stores:
  assumes "\<And>s. status_of (mk s) = Some s"
  shows "\<exists>S ws C. stores (\<lambda>w. case q of (written, status') \<Rightarrow>
                              (status', record_call (mk status') (store 0 written w))) S ws C
           \<and> last_library_status C = Some S"
proof -
  obtain wr s where q: "q = (wr, s)" by (cases q)
  have "stores (\<lambda>w. case q of (written, status') \<Rightarrow>
                      (status', record_call (mk status') (store 0 written w)))
          s [(0, wr)] [mk s]"
    by (rule storesI) (simp add: q record_call_def store_def)
  moreover have "last_library_status [mk s] = Some s"
    by (simp add: last_library_status_def assms)
  ultimately show ?thesis by blast
qed

lemma Digits_stores:
  assumes "\<not> U_FAILURE st"
  shows "\<exists>S ws C. stores (GetLocaleInfoString_switch ex locale st Digits valueLength) S ws C
           \<and> last_library_status C = Some S"
proof -
  from DecimalFormatSymbol_stores
    [of ex "locale" UNUM_ZERO_DIGIT_SYMBOL 0 "int32_sub valueLength 0"]
  obtain S1 ws1 C1 where
    f1: "stores (GetLocaleInfoDecimalFormatSymbol ex locale UNUM_ZERO_DIGIT_SYMBOL 0
           (int32_sub valueLength 0)) S1 ws1 C1"
    and l1: "last_library_status C1 = Some S1" by blast
  from digit_loop_stores [OF l1, of ex "locale" UNUM_ONE_DIGIT_SYMBOL valueLength]
  obtain S2 ws2 C2 where
    f2: "stores (digit_loop ex locale UNUM_ONE_DIGIT_SYMBOL S1 valueLength) S2 ws2 C2"
    and l2: "last_library_status (C1 @ C2) = Some S2" by blast
  have "stores (GetLocaleInfoString_switch ex locale st Digits valueLength)
          S2 (ws1 @ ws2) (C1 @ C2)"
    using assms
    by (intro storesI)
      (simp add: GetDigitSymbol_def storesD [OF f1] storesD [OF f2] pokes_append)
  with l2 show ?thesis by blast
qed

text \<open>The \<^verbatim>\<open>ParentName\<close> case, path by path.\<close>

lemma ParentName_switch:
  assumes "uloc_getParent ex loc ULOC_FULLNAME_CAPACITY st = (parent, st1)"
    and "u_charsToUChars_safe ex parent valueLength = (converted, st2)"
  shows "GetLocaleInfoString_switch ex loc st ParentName valueLength w
     = (if U_SUCCESS st1 then st2 else st1,
        w\<lparr>buffer :=
             (if U_SUCCESS st1
              then if U_SUCCESS st2
                   then FixupLocaleName ex (poke (buffer w) 0 converted) valueLength
                   else poke (buffer w) 0 converted
              else buffer w),
           calls := calls w @ [Uloc_getParent st1]\<rparr>)"
  using assms by (simp add: record_call_def store_def)

lemma ParentName_framed:
  "\<exists>S B C. framed (GetLocaleInfoString_switch ex loc st ParentName valueLength) S B C
           \<and> passes C S \<and> origin ex valueLength True C S"
proof -
  obtain parent st1 where a: "uloc_getParent ex loc ULOC_FULLNAME_CAPACITY st = (parent, st1)"
    by (cases "uloc_getParent ex loc ULOC_FULLNAME_CAPACITY st")
  obtain converted st2 where b: "u_charsToUChars_safe ex parent valueLength = (converted, st2)"
    by (cases "u_charsToUChars_safe ex parent valueLength")
  let ?S = "if U_SUCCESS st1 then st2 else st1"
  let ?B = "\<lambda>m. if U_SUCCESS st1
              then if U_SUCCESS st2
                   then FixupLocaleName ex (poke m 0 converted) valueLength
                   else poke m 0 converted
              else m"
  have "framed (GetLocaleInfoString_switch ex loc st ParentName valueLength)
          ?S ?B [Uloc_getParent st1]"
    by (rule framedI) (rule ParentName_switch [OF a b])
  moreover have "passes [Uloc_getParent st1] ?S"
    by (simp add: passes_def last_library_status_def U_FAILURE_iff)
  moreover have "origin ex valueLength True [Uloc_getParent st1] ?S"
    using origin_conversion [OF b] by (simp add: origin_last last_library_status_def)
  ultimately show ?thesis by blast
qed

lemma switch_library_status_only:
  assumes "\<not> U_FAILURE st" and "library_status_only field"
  shows "\<exists>S ws C. stores (GetLocaleInfoString_switch ex locale st field valueLength) S ws C
           \<and> last_library_status C = Some S"
proof -
  note adapters = DecimalFormatSymbol_stores AmPm_stores display_stores
  note unfolded = adapters [unfolded stores_def]
  show ?thesis
  proof (cases field)
    case Digits
    with Digits_stores [OF assms(1), of ex "locale" valueLength] show ?thesis by blast
  qed (use assms(2) in \<open>simp_all add: stores_def unfolded\<close>)
qed

lemma switch_stores:
  assumes "\<not> U_FAILURE st" and "field \<noteq> ParentName"
  shows "\<exists>S ws C. stores (GetLocaleInfoString_switch ex locale st field valueLength) S ws C
           \<and> passes C S \<and> origin ex valueLength (converts field) C S"
proof (cases "library_status_only field")
  case True
  from switch_library_status_only [OF assms(1) True, of ex "locale" valueLength]
  show ?thesis using passes_last origin_last by blast
next
  case False
  note adapters = Iso639LanguageTwoLetterName_stores Iso3166CountryName_stores
    Iso639LanguageThreeLetterName_stores Iso3166CountryCode_stores CurrencyName_stores
  note unfolded = adapters [unfolded stores_def]
  show ?thesis
  proof (cases field)
    case Unlisted
    have "stores (GetLocaleInfoString_switch ex locale st Unlisted valueLength)
            U_UNSUPPORTED_ERROR [] []"
      by (rule storesI) simp
    moreover have "passes [] U_UNSUPPORTED_ERROR"
      by (simp add: passes_def last_library_status_def)
    moreover have "origin ex valueLength (converts Unlisted) [] U_UNSUPPORTED_ERROR"
      by (rule origin_own)
    ultimately show ?thesis unfolding Unlisted by blast
  qed (use False assms(2) in \<open>simp_all add: stores_def unfolded\<close>)
qed

lemma switch_framed:
  assumes "\<not> U_FAILURE st"
  shows "\<exists>S B C. framed (GetLocaleInfoString_switch ex locale st field valueLength) S B C
           \<and> passes C S \<and> origin ex valueLength (converts field) C S"
proof (cases "field = ParentName")
  case True
  with ParentName_framed [of ex "locale" st valueLength] show ?thesis by simp
next
  case False
  from switch_stores [OF assms False, of ex "locale" valueLength]
  show ?thesis using stores_framed by blast
qed

lemma new_calls_framed: "framed f S B C \<Longrightarrow> new_calls w (snd (f w)) = C"
  by (simp add: framed_def new_calls_def)

lemma fst_framed: "framed f S B C \<Longrightarrow> fst (f w) = S"
  by (simp add: framed_def)


subsection \<open>The exported functions, path by path\<close>

text \<open>
  The exported function of the switch, on the two sides of the test of \<open>GetLocale\<close>'s
  status, and the query for a symbol of the number format on the two sides of the
  test of \<open>unum_open\<close>'s status.
\<close>

lemma GetLocaleInfoString_succeeded:
  assumes "GetLocale ex localeName ULOC_FULLNAME_CAPACITY False U_ZERO_ERROR = (loc, st)"
    and "\<not> U_FAILURE st"
  shows "GlobalizationNative_GetLocaleInfoString ex localeName field valueLength w
     = (UErrorCodeToBool (fst (GetLocaleInfoString_switch ex loc st field valueLength w)),
        snd (GetLocaleInfoString_switch ex loc st field valueLength w))"
  using assms by (simp add: GlobalizationNative_GetLocaleInfoString_def split: prod.splits)

lemma GetLocaleInfoString_failed:
  assumes "GetLocale ex localeName ULOC_FULLNAME_CAPACITY False U_ZERO_ERROR = (loc, st)"
    and "U_FAILURE st"
  shows "GlobalizationNative_GetLocaleInfoString ex localeName field valueLength w = (0, w)"
  using assms
  by (simp add: GlobalizationNative_GetLocaleInfoString_def UErrorCodeToBool_failures)

lemma DecimalFormatSymbol_opened:
  assumes "unum_open ex UNUM_DECIMAL loc U_ZERO_ERROR = (h, st1)" and "\<not> U_FAILURE st1"
    and "unum_getSymbol ex h symbol valueLength st1 = (answer, st2)"
  shows "GetLocaleInfoDecimalFormatSymbol ex loc symbol val valueLength w
     = (st2, w\<lparr>buffer := poke (buffer w) val answer,
               calls := calls w @
                 [Unum_open h st1, Unum_getSymbol h symbol val valueLength st2, Unum_close h]\<rparr>)"
  using assms
  by (simp add: GetLocaleInfoDecimalFormatSymbol_def record_call_def store_def)

lemma DecimalFormatSymbol_not_opened:
  assumes "unum_open ex UNUM_DECIMAL loc U_ZERO_ERROR = (h, st1)" and "U_FAILURE st1"
  shows "GetLocaleInfoDecimalFormatSymbol ex loc symbol val valueLength w
     = (st1, w\<lparr>calls := calls w @ [Unum_open h st1]\<rparr>)"
  using assms by (simp add: GetLocaleInfoDecimalFormatSymbol_def record_call_def)

lemma UErrorCodeToBool_flag:
  "UErrorCodeToBool S = 0 \<or> UErrorCodeToBool S = 1"
  "UErrorCodeToBool S = 1 \<longleftrightarrow> U_SUCCESS S"
  "U_FAILURE S \<Longrightarrow> UErrorCodeToBool S = 0"
  by (simp_all add: UErrorCodeToBool_def U_FAILURE_iff)


lemma GetLocaleInfoString_framed:
  assumes g: "GetLocale ex localeName ULOC_FULLNAME_CAPACITY False U_ZERO_ERROR = (loc, st)"
  shows "\<exists>R B C. framed (GlobalizationNative_GetLocaleInfoString ex localeName field valueLength)
                    R B C
           \<and> (\<forall>s. last_library_status C = Some s \<and> U_FAILURE s \<longrightarrow> R = 0)"
proof (cases "U_FAILURE st")
  case True
  have "framed (GlobalizationNative_GetLocaleInfoString ex localeName field valueLength)
               0 (\<lambda>b. b) []"
    by (rule framedI) (simp add: GetLocaleInfoString_failed [OF g True])
  then show ?thesis by blast
next
  case False
  from switch_framed [OF False, of ex loc field valueLength]
  obtain S B C where f: "framed (GetLocaleInfoString_switch ex loc st field valueLength) S B C"
    and p: "passes C S" by blast
  have "framed (GlobalizationNative_GetLocaleInfoString ex localeName field valueLength)
               (UErrorCodeToBool S) B C"
    by (rule framedI) (simp add: GetLocaleInfoString_succeeded [OF g False] framedD [OF f])
  moreover have "UErrorCodeToBool S = 0" if "last_library_status C = Some s" "U_FAILURE s" for s
    using p that by (simp add: passes_def UErrorCodeToBool_def U_FAILURE_iff)
  ultimately show ?thesis by blast
qed

lemma GetLocaleTimeFormat_stores:
  assumes g: "GetLocale ex localeName ULOC_FULLNAME_CAPACITY False U_ZERO_ERROR = (loc, st)"
  shows "\<exists>R ws C. stores (GlobalizationNative_GetLocaleTimeFormat ex localeName shortFormat
                     valueLength) R ws C
           \<and> (R = 1 \<longleftrightarrow> (\<exists>s. last_library_status C = Some s \<and> U_SUCCESS s))
           \<and> (R = 0 \<or> R = 1)"
proof -
  let ?style = "if shortFormat \<noteq> 0 then UDAT_SHORT else UDAT_MEDIUM"
  obtain h st1 where o: "udat_open ex ?style UDAT_NONE loc st = (h, st1)"
    by (cases "udat_open ex ?style UDAT_NONE loc st")
  obtain wr st2 where p: "udat_toPattern ex h False valueLength st1 = (wr, st2)"
    by (cases "udat_toPattern ex h False valueLength st1")
  consider "U_FAILURE st" | "\<not> U_FAILURE st" "U_FAILURE st1" | "\<not> U_FAILURE st" "\<not> U_FAILURE st1"
    by blast
  then show ?thesis
  proof cases
    case 1
    then have "stores (GlobalizationNative_GetLocaleTimeFormat ex localeName shortFormat
                 valueLength) 0 [] []"
      by (intro storesI)
        (simp add: GlobalizationNative_GetLocaleTimeFormat_def g UErrorCodeToBool_failures)
    moreover have "last_library_status [] = None"
      by (simp add: last_library_status_def)
    ultimately show ?thesis by force
  next
    case 2
    then have "stores (GlobalizationNative_GetLocaleTimeFormat ex localeName shortFormat
                 valueLength) 0 [] [Udat_open h st1]"
      by (intro storesI)
        (simp add: GlobalizationNative_GetLocaleTimeFormat_def g o record_call_def
          UErrorCodeToBool_def U_FAILURE_iff)
    moreover have "last_library_status [Udat_open h st1] = Some st1"
      by (simp add: last_library_status_def)
    ultimately show ?thesis using 2 by (force simp: U_FAILURE_iff)
  next
    case 3
    then have "stores (GlobalizationNative_GetLocaleTimeFormat ex localeName shortFormat
                 valueLength) (UErrorCodeToBool st2) [(0, wr)]
                 [Udat_open h st1, Udat_toPattern h st2, Udat_close h]"
      by (intro storesI)
        (simp add: GlobalizationNative_GetLocaleTimeFormat_def g o p record_call_def store_def)
    moreover have "last_library_status [Udat_open h st1, Udat_toPattern h st2, Udat_close h]
                     = Some st2"
      by (simp add: last_library_status_def)
    moreover have "(UErrorCodeToBool st2 = 1) = U_SUCCESS st2"
      and "UErrorCodeToBool st2 = 0 \<or> UErrorCodeToBool st2 = 1"
      by (simp_all add: UErrorCodeToBool_def)
    ultimately show ?thesis
      by (intro exI [of _ "UErrorCodeToBool st2"] exI [of _ "[(0, wr)]"]
          exI [of _ "[Udat_open h st1, Udat_toPattern h st2, Udat_close h]"]) simp
  qed
qed

subsection \<open>Stores made in two states, and made twice\<close>

text \<open>
  A fixed list of stores leaves, in two arrays of the same length, at every position
  either the same character or the character that each array held; made a second
  time it changes nothing.
\<close>

lemma length_pokes [simp]: "length (pokes mem ws) = length mem"
  by (induction ws arbitrary: mem) auto







lemma toy_fixup_length [simp]: "length (toy_fixup xs n) = length xs"
  by (induction xs n rule: toy_fixup.induct) auto







subsection \<open>A locale name that cannot be made a locale\<close>

text \<open>
  C2. Both exported functions call \<open>GetLocale\<close> on the locale name first. When it
  leaves a failure status they return 0 and the state is the one they were given: no
  call of the library is made and nothing is stored in the caller's array.
\<close>

theorem GetLocale_failure_returns_zero:
  assumes "U_FAILURE (snd (GetLocale ex localeName ULOC_FULLNAME_CAPACITY False U_ZERO_ERROR))"
  shows "GlobalizationNative_GetLocaleInfoString ex localeName localeStringData valueLength w
           = (0, w)
       \<and> GlobalizationNative_GetLocaleTimeFormat ex localeName shortFormat valueLength w
           = (0, w)"
proof -
  obtain loc st where
    g: "GetLocale ex localeName ULOC_FULLNAME_CAPACITY False U_ZERO_ERROR = (loc, st)"
    by (rule GetLocale_cases)
  from assms g have "U_FAILURE st" by simp
  then show ?thesis
    by (simp add: GlobalizationNative_GetLocaleInfoString_def
        GlobalizationNative_GetLocaleTimeFormat_def g UErrorCodeToBool_failures)
qed

theorem GetLocale_failure_returns_zero_witness:
  "U_FAILURE (snd (GetLocale toy (ustr ''??'') ULOC_FULLNAME_CAPACITY False U_ZERO_ERROR))
   \<and> GlobalizationNative_GetLocaleInfoString toy (ustr ''??'') Digits 20 w0 = (0, w0)
   \<and> GlobalizationNative_GetLocaleTimeFormat toy (ustr ''??'') 1 20 w0 = (0, w0)"
proof -
  have h: "U_FAILURE (snd (GetLocale toy (ustr ''??'') ULOC_FULLNAME_CAPACITY False U_ZERO_ERROR))"
    by code_simp
  from GetLocale_failure_returns_zero [OF h, of Digits 20 w0 1] h show ?thesis
    by simp
qed

subsection \<open>A field that is not listed\<close>

text \<open>
  C5. When \<open>GetLocale\<close> succeeds and the field is none of the enumerators, the switch
  takes its default label: the status is \<open>U_UNSUPPORTED_ERROR\<close>, the function returns
  0, and the state is unchanged (nothing is stored in the caller's array).
\<close>

theorem unlisted_field_unsupported:
  assumes "GetLocale ex localeName ULOC_FULLNAME_CAPACITY False U_ZERO_ERROR = (loc, st)"
    and "\<not> U_FAILURE st"
  shows "GetLocaleInfoString_switch ex loc st Unlisted valueLength w = (U_UNSUPPORTED_ERROR, w)
       \<and> GlobalizationNative_GetLocaleInfoString ex localeName Unlisted valueLength w = (0, w)"
  using assms
  by (simp add: GlobalizationNative_GetLocaleInfoString_def UErrorCodeToBool_failures)

theorem unlisted_field_unsupported_witness:
  "GetLocale toy (ustr ''en-US'') ULOC_FULLNAME_CAPACITY False U_ZERO_ERROR = (''en_US'', 0)
   \<and> \<not> U_FAILURE 0
   \<and> GetLocaleInfoString_switch toy ''en_US'' 0 Unlisted 20 w0 = (U_UNSUPPORTED_ERROR, w0)
   \<and> GlobalizationNative_GetLocaleInfoString toy (ustr ''en-US'') Unlisted 20 w0 = (0, w0)"
proof -
  have g: "GetLocale toy (ustr ''en-US'') ULOC_FULLNAME_CAPACITY False U_ZERO_ERROR = (''en_US'', 0)"
    by code_simp
  have s: "\<not> U_FAILURE 0"
    by (simp add: status_defs)
  from unlisted_field_unsupported [OF g s, of 20 w0] g s show ?thesis
    by simp
qed

subsection \<open>The list separator\<close>

text \<open>
  C9. For every locale name, capacity and state,
  \<open>GlobalizationNative_GetLocaleInfoString\<close> gives the same result and leaves the same
  state for \<^verbatim>\<open>ListSeparator\<close> as for \<^verbatim>\<open>ThousandSeparator\<close>, and what both do is the
  query for the grouping separator: when \<open>GetLocale\<close> succeeds and the number format
  opens, each of the two calls asks that format for \<open>UNUM_GROUPING_SEPARATOR_SYMBOL\<close>
  with room for \<^verbatim>\<open>valueLength\<close> characters, stores the answer at the start of the
  caller's array, closes the format and returns the flag of the status which that
  query left; when the number format does not open, each returns 0 after that one call
  and stores nothing.
\<close>

theorem ListSeparator_is_ThousandSeparator:
  "GlobalizationNative_GetLocaleInfoString ex localeName ListSeparator valueLength w
     = GlobalizationNative_GetLocaleInfoString ex localeName ThousandSeparator valueLength w
   \<and> (GetLocale ex localeName ULOC_FULLNAME_CAPACITY False U_ZERO_ERROR = (loc, st)
       \<and> \<not> U_FAILURE st
       \<and> unum_open ex UNUM_DECIMAL loc U_ZERO_ERROR = (h, st1) \<and> \<not> U_FAILURE st1
       \<and> unum_getSymbol ex h UNUM_GROUPING_SEPARATOR_SYMBOL valueLength st1 = (answer, st2) \<longrightarrow>
      GlobalizationNative_GetLocaleInfoString ex localeName ListSeparator valueLength w
        = (UErrorCodeToBool st2,
           w\<lparr>buffer := poke (buffer w) 0 answer,
             calls := calls w @
               [Unum_open h st1,
                Unum_getSymbol h UNUM_GROUPING_SEPARATOR_SYMBOL 0 valueLength st2,
                Unum_close h]\<rparr>)
      \<and> GlobalizationNative_GetLocaleInfoString ex localeName ThousandSeparator valueLength w
        = (UErrorCodeToBool st2,
           w\<lparr>buffer := poke (buffer w) 0 answer,
             calls := calls w @
               [Unum_open h st1,
                Unum_getSymbol h UNUM_GROUPING_SEPARATOR_SYMBOL 0 valueLength st2,
                Unum_close h]\<rparr>))
   \<and> (GetLocale ex localeName ULOC_FULLNAME_CAPACITY False U_ZERO_ERROR = (loc, st)
       \<and> \<not> U_FAILURE st
       \<and> unum_open ex UNUM_DECIMAL loc U_ZERO_ERROR = (h, st1) \<and> U_FAILURE st1 \<longrightarrow>
      GlobalizationNative_GetLocaleInfoString ex localeName ListSeparator valueLength w
        = (0, w\<lparr>calls := calls w @ [Unum_open h st1]\<rparr>)
      \<and> GlobalizationNative_GetLocaleInfoString ex localeName ThousandSeparator valueLength w
        = (0, w\<lparr>calls := calls w @ [Unum_open h st1]\<rparr>))"
proof (intro conjI impI; (elim conjE)?)
  show "GlobalizationNative_GetLocaleInfoString ex localeName ListSeparator valueLength w
     = GlobalizationNative_GetLocaleInfoString ex localeName ThousandSeparator valueLength w"
    by (simp add: GlobalizationNative_GetLocaleInfoString_def split: prod.splits)
next
  assume g: "GetLocale ex localeName ULOC_FULLNAME_CAPACITY False U_ZERO_ERROR = (loc, st)"
    and ok: "\<not> U_FAILURE st"
    and o: "unum_open ex UNUM_DECIMAL loc U_ZERO_ERROR = (h, st1)" "\<not> U_FAILURE st1"
    and a: "unum_getSymbol ex h UNUM_GROUPING_SEPARATOR_SYMBOL valueLength st1 = (answer, st2)"
  show "GlobalizationNative_GetLocaleInfoString ex localeName ListSeparator valueLength w
        = (UErrorCodeToBool st2,
           w\<lparr>buffer := poke (buffer w) 0 answer,
             calls := calls w @
               [Unum_open h st1,
                Unum_getSymbol h UNUM_GROUPING_SEPARATOR_SYMBOL 0 valueLength st2,
                Unum_close h]\<rparr>)"
    and "GlobalizationNative_GetLocaleInfoString ex localeName ThousandSeparator valueLength w
        = (UErrorCodeToBool st2,
           w\<lparr>buffer := poke (buffer w) 0 answer,
             calls := calls w @
               [Unum_open h st1,
                Unum_getSymbol h UNUM_GROUPING_SEPARATOR_SYMBOL 0 valueLength st2,
                Unum_close h]\<rparr>)"
    by (simp_all add: GetLocaleInfoString_succeeded [OF g ok] DecimalFormatSymbol_opened [OF o a])
next
  assume g: "GetLocale ex localeName ULOC_FULLNAME_CAPACITY False U_ZERO_ERROR = (loc, st)"
    and ok: "\<not> U_FAILURE st"
    and o: "unum_open ex UNUM_DECIMAL loc U_ZERO_ERROR = (h, st1)" "U_FAILURE st1"
  have z: "UErrorCodeToBool st1 = 0"
    using o(2) by (simp add: UErrorCodeToBool_def U_FAILURE_iff)
  show "GlobalizationNative_GetLocaleInfoString ex localeName ListSeparator valueLength w
        = (0, w\<lparr>calls := calls w @ [Unum_open h st1]\<rparr>)"
    and "GlobalizationNative_GetLocaleInfoString ex localeName ThousandSeparator valueLength w
        = (0, w\<lparr>calls := calls w @ [Unum_open h st1]\<rparr>)"
    by (simp_all add: GetLocaleInfoString_succeeded [OF g ok]
        DecimalFormatSymbol_not_opened [OF o] z)
qed

theorem ListSeparator_is_ThousandSeparator_witness:
  "GetLocale toy (ustr ''en-US'') ULOC_FULLNAME_CAPACITY False U_ZERO_ERROR = (''en_US'', 0)
   \<and> \<not> U_FAILURE 0
   \<and> unum_open toy UNUM_DECIMAL ''en_US'' U_ZERO_ERROR = (1, 0)
   \<and> unum_getSymbol toy 1 UNUM_GROUPING_SEPARATOR_SYMBOL 20 0 = (ustr '','' @ [0], 0)
   \<and> GlobalizationNative_GetLocaleInfoString toy (ustr ''en-US'') ListSeparator 20 w0
       = (1, w0\<lparr>buffer := poke (buffer w0) 0 (ustr '','' @ [0]),
                calls := calls w0 @
                  [Unum_open 1 0, Unum_getSymbol 1 UNUM_GROUPING_SEPARATOR_SYMBOL 0 20 0,
                   Unum_close 1]\<rparr>)
   \<and> GlobalizationNative_GetLocaleInfoString toy (ustr ''en-US'') ThousandSeparator 20 w0
       = (1, w0\<lparr>buffer := poke (buffer w0) 0 (ustr '','' @ [0]),
                calls := calls w0 @
                  [Unum_open 1 0, Unum_getSymbol 1 UNUM_GROUPING_SEPARATOR_SYMBOL 0 20 0,
                   Unum_close 1]\<rparr>)
   \<and> GetLocale toy_no_format (ustr ''en-US'') ULOC_FULLNAME_CAPACITY False U_ZERO_ERROR
       = (''en_US'', 0)
   \<and> unum_open toy_no_format UNUM_DECIMAL ''en_US'' U_ZERO_ERROR = (0, U_MEMORY_ALLOCATION_ERROR)
   \<and> U_FAILURE U_MEMORY_ALLOCATION_ERROR
   \<and> GlobalizationNative_GetLocaleInfoString toy_no_format (ustr ''en-US'') ListSeparator 20 w0
       = (0, w0\<lparr>calls := calls w0 @ [Unum_open 0 U_MEMORY_ALLOCATION_ERROR]\<rparr>)
   \<and> GlobalizationNative_GetLocaleInfoString toy_no_format (ustr ''en-US'') ThousandSeparator 20 w0
       = (0, w0\<lparr>calls := calls w0 @ [Unum_open 0 U_MEMORY_ALLOCATION_ERROR]\<rparr>)"
proof -
  have g: "GetLocale toy (ustr ''en-US'') ULOC_FULLNAME_CAPACITY False U_ZERO_ERROR = (''en_US'', 0)"
    and ok: "\<not> U_FAILURE 0"
    and o: "unum_open toy UNUM_DECIMAL ''en_US'' U_ZERO_ERROR = (1, 0)"
    and a: "unum_getSymbol toy 1 UNUM_GROUPING_SEPARATOR_SYMBOL 20 0 = (ustr '','' @ [0], 0)"
    and g': "GetLocale toy_no_format (ustr ''en-US'') ULOC_FULLNAME_CAPACITY False U_ZERO_ERROR
       = (''en_US'', 0)"
    and o': "unum_open toy_no_format UNUM_DECIMAL ''en_US'' U_ZERO_ERROR
       = (0, U_MEMORY_ALLOCATION_ERROR)"
    and f: "U_FAILURE U_MEMORY_ALLOCATION_ERROR"
    and b: "UErrorCodeToBool 0 = 1"
    by code_simp+
  note opened = ListSeparator_is_ThousandSeparator [where ex = toy
      and localeName = "ustr ''en-US''" and loc = "''en_US''" and st = 0 and h = 1 and ?st1.0 = 0
      and valueLength = 20 and answer = "ustr '','' @ [0]" and ?st2.0 = 0 and w = w0]
  note closed = ListSeparator_is_ThousandSeparator [where ex = toy_no_format
      and localeName = "ustr ''en-US''" and loc = "''en_US''" and st = 0 and h = 0
      and ?st1.0 = U_MEMORY_ALLOCATION_ERROR and valueLength = 20 and w = w0]
  from opened g ok o a have
    "GlobalizationNative_GetLocaleInfoString toy (ustr ''en-US'') ListSeparator 20 w0
       = (UErrorCodeToBool 0, w0\<lparr>buffer := poke (buffer w0) 0 (ustr '','' @ [0]),
                calls := calls w0 @
                  [Unum_open 1 0, Unum_getSymbol 1 UNUM_GROUPING_SEPARATOR_SYMBOL 0 20 0,
                   Unum_close 1]\<rparr>)"
    "GlobalizationNative_GetLocaleInfoString toy (ustr ''en-US'') ThousandSeparator 20 w0
       = (UErrorCodeToBool 0, w0\<lparr>buffer := poke (buffer w0) 0 (ustr '','' @ [0]),
                calls := calls w0 @
                  [Unum_open 1 0, Unum_getSymbol 1 UNUM_GROUPING_SEPARATOR_SYMBOL 0 20 0,
                   Unum_close 1]\<rparr>)"
    by blast+
  moreover from closed g' ok o' f have
    "GlobalizationNative_GetLocaleInfoString toy_no_format (ustr ''en-US'') ListSeparator 20 w0
       = (0, w0\<lparr>calls := calls w0 @ [Unum_open 0 U_MEMORY_ALLOCATION_ERROR]\<rparr>)"
    "GlobalizationNative_GetLocaleInfoString toy_no_format (ustr ''en-US'') ThousandSeparator 20 w0
       = (0, w0\<lparr>calls := calls w0 @ [Unum_open 0 U_MEMORY_ALLOCATION_ERROR]\<rparr>)"
    by blast+
  ultimately show ?thesis unfolding b using g ok o a g' o' f by blast
qed

subsection \<open>No state is kept between calls\<close>



subsection \<open>From the status to the flag\<close>

lemma flag_of_library_status:
  assumes g: "GetLocale ex localeName ULOC_FULLNAME_CAPACITY False U_ZERO_ERROR = (loc, st)"
    and ok: "\<not> U_FAILURE st" and plain: "library_status_only field"
  shows "last_library_status (new_calls w
            (snd (GlobalizationNative_GetLocaleInfoString ex localeName field valueLength w)))
          = Some (fst (GetLocaleInfoString_switch ex loc st field valueLength w))"
proof -
  from switch_library_status_only [OF ok plain, of ex loc valueLength]
  obtain S ws C where s: "stores (GetLocaleInfoString_switch ex loc st field valueLength) S ws C"
    and l: "last_library_status C = Some S" by blast
  note f = stores_framed [OF s]
  show ?thesis
    by (simp add: GetLocaleInfoString_succeeded [OF g ok] new_calls_framed [OF f]
        fst_framed [OF f] l)
qed

lemma flag_iff_library_success:
  assumes "library_status_only field \<or> field = Unlisted"
  shows "fst (GlobalizationNative_GetLocaleInfoString ex localeName field valueLength w) = 1
     \<longleftrightarrow> (\<exists>s. last_library_status (new_calls w
                  (snd (GlobalizationNative_GetLocaleInfoString ex localeName field valueLength w)))
                = Some s \<and> U_SUCCESS s)"
proof -
  obtain loc st where
    g: "GetLocale ex localeName ULOC_FULLNAME_CAPACITY False U_ZERO_ERROR = (loc, st)"
    by (rule GetLocale_cases)
  have none: "last_library_status (new_calls w w) = None"
    by (simp add: new_calls_def last_library_status_def)
  show ?thesis
  proof (cases "U_FAILURE st")
    case True
    show ?thesis
      by (simp add: GetLocaleInfoString_failed [OF g True] none)
  next
    case False
    show ?thesis
    proof (cases "field = Unlisted")
      case True
      show ?thesis
        by (simp add: GetLocaleInfoString_succeeded [OF g False] True none
            UErrorCodeToBool_failures)
    next
      case no: False
      with assms have plain: "library_status_only field" by simp
      show ?thesis
        unfolding flag_of_library_status [OF g False plain]
        by (simp add: GetLocaleInfoString_succeeded [OF g False] UErrorCodeToBool_flag)
    qed
  qed
qed

text \<open>
  C1 (as amended). Both exported functions return 0 or 1. For the fields at which the
  file sets no status of its own (the display names, the symbols of the number format,
  the AM and PM designators and the digits: \<open>library_status_only\<close>) and for a field
  that is not listed, \<open>GlobalizationNative_GetLocaleInfoString\<close> returns 1 exactly when
  it called the library and the last status that the library left is a success
  status; when \<open>GetLocale\<close> succeeds at one of the former fields, the status at the
  end of the switch is that last status, unchanged. For every field, when \<open>GetLocale\<close>
  succeeds the function returns 1 exactly when the status at the end of the switch is
  a success status, and that status is the last one the library left, or one of the
  four that the file sets itself (\<open>U_ILLEGAL_ARGUMENT_ERROR\<close>,
  \<open>U_BUFFER_OVERFLOW_ERROR\<close>, \<open>U_MEMORY_ALLOCATION_ERROR\<close>, \<open>U_UNSUPPORTED_ERROR\<close>), or
  for the five fields whose name the runtime converts (the four ISO names and
  \<^verbatim>\<open>ParentName\<close>) a status of the conversion \<open>u_charsToUChars_safe\<close> (\<open>origin\<close>); and
  whenever the last status that the library left is a failure the function returns 0.
  \<open>GlobalizationNative_GetLocaleTimeFormat\<close> returns 1 exactly when it called the
  library and the last status the library left is a success status.
\<close>

theorem status_to_flag:
  "(fst (GlobalizationNative_GetLocaleInfoString ex localeName field valueLength w) = 0
      \<or> fst (GlobalizationNative_GetLocaleInfoString ex localeName field valueLength w) = 1)
   \<and> (library_status_only field \<or> field = Unlisted \<longrightarrow>
        (fst (GlobalizationNative_GetLocaleInfoString ex localeName field valueLength w) = 1
           \<longleftrightarrow> (\<exists>s. last_library_status (new_calls w
                        (snd (GlobalizationNative_GetLocaleInfoString ex localeName field
                               valueLength w))) = Some s \<and> U_SUCCESS s)))
   \<and> (GetLocale ex localeName ULOC_FULLNAME_CAPACITY False U_ZERO_ERROR = (loc, st)
       \<and> \<not> U_FAILURE st \<and> library_status_only field \<longrightarrow>
        last_library_status (new_calls w
            (snd (GlobalizationNative_GetLocaleInfoString ex localeName field valueLength w)))
          = Some (fst (GetLocaleInfoString_switch ex loc st field valueLength w)))
   \<and> (GetLocale ex localeName ULOC_FULLNAME_CAPACITY False U_ZERO_ERROR = (loc, st)
       \<and> \<not> U_FAILURE st \<longrightarrow>
        (fst (GlobalizationNative_GetLocaleInfoString ex localeName field valueLength w) = 1
           \<longleftrightarrow> U_SUCCESS (fst (GetLocaleInfoString_switch ex loc st field valueLength w)))
        \<and> origin ex valueLength (converts field)
            (new_calls w
               (snd (GlobalizationNative_GetLocaleInfoString ex localeName field valueLength w)))
            (fst (GetLocaleInfoString_switch ex loc st field valueLength w)))
   \<and> (last_library_status (new_calls w
          (snd (GlobalizationNative_GetLocaleInfoString ex localeName field valueLength w)))
         = Some s \<and> U_FAILURE s \<longrightarrow>
        fst (GlobalizationNative_GetLocaleInfoString ex localeName field valueLength w) = 0)
   \<and> (fst (GlobalizationNative_GetLocaleTimeFormat ex localeName shortFormat valueLength w) = 1
        \<longleftrightarrow> (\<exists>s. last_library_status (new_calls w
                     (snd (GlobalizationNative_GetLocaleTimeFormat ex localeName shortFormat
                            valueLength w))) = Some s \<and> U_SUCCESS s))
   \<and> (fst (GlobalizationNative_GetLocaleTimeFormat ex localeName shortFormat valueLength w) = 0
        \<or> fst (GlobalizationNative_GetLocaleTimeFormat ex localeName shortFormat valueLength w) = 1)"
proof -
  let ?G = "GlobalizationNative_GetLocaleInfoString ex localeName field valueLength"
  let ?T = "GlobalizationNative_GetLocaleTimeFormat ex localeName shortFormat valueLength"
  obtain loc' st' where
    g': "GetLocale ex localeName ULOC_FULLNAME_CAPACITY False U_ZERO_ERROR = (loc', st')"
    by (rule GetLocale_cases)
  have a: "fst (?G w) = 0 \<or> fst (?G w) = 1"
    by (cases "U_FAILURE st'")
      (simp_all add: GetLocaleInfoString_failed [OF g'] GetLocaleInfoString_succeeded [OF g']
        UErrorCodeToBool_def)
  have b: "fst (?G w) = 1
           \<longleftrightarrow> (\<exists>s. last_library_status (new_calls w (snd (?G w))) = Some s \<and> U_SUCCESS s)"
    if "library_status_only field \<or> field = Unlisted"
    by (rule flag_iff_library_success [OF that])
  have c: "last_library_status (new_calls w (snd (?G w)))
          = Some (fst (GetLocaleInfoString_switch ex loc st field valueLength w))"
    if "GetLocale ex localeName ULOC_FULLNAME_CAPACITY False U_ZERO_ERROR = (loc, st)"
      "\<not> U_FAILURE st" "library_status_only field"
    using that by (rule flag_of_library_status)
  have d: "(fst (?G w) = 1
             \<longleftrightarrow> U_SUCCESS (fst (GetLocaleInfoString_switch ex loc st field valueLength w)))
           \<and> origin ex valueLength (converts field) (new_calls w (snd (?G w)))
               (fst (GetLocaleInfoString_switch ex loc st field valueLength w))"
    if g: "GetLocale ex localeName ULOC_FULLNAME_CAPACITY False U_ZERO_ERROR = (loc, st)"
      and ok: "\<not> U_FAILURE st"
  proof -
    from switch_framed [OF ok, of ex loc field valueLength]
    obtain S B C where f: "framed (GetLocaleInfoString_switch ex loc st field valueLength) S B C"
      and o: "origin ex valueLength (converts field) C S" by blast
    show ?thesis
      using o
      by (simp add: GetLocaleInfoString_succeeded [OF g ok] new_calls_framed [OF f]
          fst_framed [OF f] UErrorCodeToBool_flag)
  qed
  from GetLocaleInfoString_framed [OF g', of field valueLength]
  obtain R B C where f: "framed ?G R B C"
    and p: "\<forall>s. last_library_status C = Some s \<and> U_FAILURE s \<longrightarrow> R = 0" by blast
  have e: "last_library_status (new_calls w (snd (?G w))) = Some s \<and> U_FAILURE s
              \<longrightarrow> fst (?G w) = 0"
    using p by (simp add: new_calls_framed [OF f] fst_framed [OF f])
  from GetLocaleTimeFormat_stores [OF g', of shortFormat valueLength]
  obtain R' ws' C' where s': "stores ?T R' ws' C'"
    and p': "R' = 1 \<longleftrightarrow> (\<exists>s. last_library_status C' = Some s \<and> U_SUCCESS s)"
    and q': "R' = 0 \<or> R' = 1" by blast
  note f' = stores_framed [OF s']
  have t: "fst (?T w) = 1 \<longleftrightarrow> (\<exists>s. last_library_status (new_calls w (snd (?T w))) = Some s
              \<and> U_SUCCESS s)"
    and t': "fst (?T w) = 0 \<or> fst (?T w) = 1"
    using p' q' by (simp_all add: new_calls_framed [OF f'] fst_framed [OF f'])
  from a b c d e t t' show ?thesis by blast
qed

text \<open>
  The claim as it stands fails for the English name of the currency with room for five
  characters: both calls of the library leave \<open>U_ZERO_ERROR\<close>, and the function
  returns 0, on the \<open>U_BUFFER_OVERFLOW_ERROR\<close> that \<open>GetLocaleCurrencyName\<close> sets
  itself.
\<close>

theorem status_to_flag_counterexample:
  "fst (GlobalizationNative_GetLocaleInfoString toy (ustr ''en-US'') CurrencyEnglishName 5 w0) = 0
   \<and> last_library_status (new_calls w0
        (snd (GlobalizationNative_GetLocaleInfoString toy (ustr ''en-US'') CurrencyEnglishName 5 w0)))
       = Some U_ZERO_ERROR
   \<and> U_SUCCESS U_ZERO_ERROR"
  by code_simp

theorem status_to_flag_witness:
  "GetLocale toy (ustr ''en-US'') ULOC_FULLNAME_CAPACITY False U_ZERO_ERROR = (''en_US'', 0)
   \<and> \<not> U_FAILURE 0
   \<and> library_status_only DecimalSeparator
   \<and> last_library_status (new_calls w0
        (snd (GlobalizationNative_GetLocaleInfoString toy (ustr ''en-US'') DecimalSeparator 20 w0)))
       = Some 0
   \<and> U_SUCCESS 0
   \<and> fst (GetLocaleInfoString_switch toy ''en_US'' 0 DecimalSeparator 20 w0) = 0
   \<and> fst (GlobalizationNative_GetLocaleInfoString toy (ustr ''en-US'') DecimalSeparator 20 w0) = 1
   \<and> library_status_only Digits
   \<and> last_library_status (new_calls w0
        (snd (GlobalizationNative_GetLocaleInfoString toy (ustr ''en-US'') Digits 5 w0)))
       = Some U_BUFFER_OVERFLOW_ERROR
   \<and> U_FAILURE U_BUFFER_OVERFLOW_ERROR
   \<and> fst (GlobalizationNative_GetLocaleInfoString toy (ustr ''en-US'') Digits 5 w0) = 0
   \<and> fst (GetLocaleInfoString_switch toy ''en_US'' 0 CurrencyEnglishName 5 w0)
       = U_BUFFER_OVERFLOW_ERROR
   \<and> \<not> converts CurrencyEnglishName
   \<and> origin toy 5 False
       (new_calls w0
          (snd (GlobalizationNative_GetLocaleInfoString toy (ustr ''en-US'') CurrencyEnglishName 5 w0)))
       U_BUFFER_OVERFLOW_ERROR
   \<and> last_library_status (new_calls w0
        (snd (GlobalizationNative_GetLocaleTimeFormat toy (ustr ''en-US'') 1 20 w0))) = Some 0
   \<and> fst (GlobalizationNative_GetLocaleTimeFormat toy (ustr ''en-US'') 1 20 w0) = 1"
proof -
  have g: "GetLocale toy (ustr ''en-US'') ULOC_FULLNAME_CAPACITY False U_ZERO_ERROR = (''en_US'', 0)"
    and h: "\<not> U_FAILURE 0"
    and p: "library_status_only DecimalSeparator"
    and l: "last_library_status (new_calls w0
        (snd (GlobalizationNative_GetLocaleInfoString toy (ustr ''en-US'') DecimalSeparator 20 w0)))
       = Some 0"
    and u: "U_SUCCESS 0"
    and p': "library_status_only Digits"
    and d: "last_library_status (new_calls w0
        (snd (GlobalizationNative_GetLocaleInfoString toy (ustr ''en-US'') Digits 5 w0)))
       = Some U_BUFFER_OVERFLOW_ERROR"
    and f: "U_FAILURE U_BUFFER_OVERFLOW_ERROR"
    and c: "fst (GetLocaleInfoString_switch toy ''en_US'' 0 CurrencyEnglishName 5 w0)
       = U_BUFFER_OVERFLOW_ERROR"
    and t: "last_library_status (new_calls w0
        (snd (GlobalizationNative_GetLocaleTimeFormat toy (ustr ''en-US'') 1 20 w0))) = Some 0"
    by code_simp+
  note separator = status_to_flag [where ex = toy and localeName = "ustr ''en-US''"
      and loc = "''en_US''" and st = 0 and field = DecimalSeparator and valueLength = 20
      and w = w0 and shortFormat = 1]
  note digits = status_to_flag [where ex = toy and localeName = "ustr ''en-US''"
      and loc = "''en_US''" and st = 0 and field = Digits and valueLength = 5
      and w = w0 and s = U_BUFFER_OVERFLOW_ERROR]
  note currency = status_to_flag [where ex = toy and localeName = "ustr ''en-US''"
      and loc = "''en_US''" and st = 0 and field = CurrencyEnglishName and valueLength = 5
      and w = w0]
  from separator g h p have
    "last_library_status (new_calls w0
        (snd (GlobalizationNative_GetLocaleInfoString toy (ustr ''en-US'') DecimalSeparator 20 w0)))
       = Some (fst (GetLocaleInfoString_switch toy ''en_US'' 0 DecimalSeparator 20 w0))"
    by blast
  with l have a1: "fst (GetLocaleInfoString_switch toy ''en_US'' 0 DecimalSeparator 20 w0) = 0"
    by simp
  from separator p l u have a2:
    "fst (GlobalizationNative_GetLocaleInfoString toy (ustr ''en-US'') DecimalSeparator 20 w0) = 1"
    by blast
  from digits d f have a3:
    "fst (GlobalizationNative_GetLocaleInfoString toy (ustr ''en-US'') Digits 5 w0) = 0"
    by blast
  have nc: "\<not> converts CurrencyEnglishName"
    by simp
  from currency g h have
    "origin toy 5 (converts CurrencyEnglishName)
       (new_calls w0
          (snd (GlobalizationNative_GetLocaleInfoString toy (ustr ''en-US'') CurrencyEnglishName 5 w0)))
       (fst (GetLocaleInfoString_switch toy ''en_US'' 0 CurrencyEnglishName 5 w0))"
    by blast
  then have a4: "origin toy 5 False
       (new_calls w0
          (snd (GlobalizationNative_GetLocaleInfoString toy (ustr ''en-US'') CurrencyEnglishName 5 w0)))
       U_BUFFER_OVERFLOW_ERROR"
    unfolding c using nc by simp
  from separator t u have a5:
    "fst (GlobalizationNative_GetLocaleTimeFormat toy (ustr ''en-US'') 1 20 w0) = 1"
    by blast
  from g h p l u a1 a2 p' d f a3 c nc a4 t a5 show ?thesis by blast
qed

subsection \<open>Formatters are closed\<close>

text \<open>
  C4. When the library opens a formatter with a success status,
  \<open>GetLocaleInfoDecimalFormatSymbol\<close>, \<open>GetLocaleInfoAmPm\<close> and
  \<open>GlobalizationNative_GetLocaleTimeFormat\<close> make exactly three calls: they open the
  formatter, ask it for one piece of data, and close it, whatever status the
  extraction leaves. No formatter is open afterwards that was not open before.
\<close>

theorem handles_are_closed:
  "(unum_open ex UNUM_DECIMAL loc U_ZERO_ERROR = (h, st) \<and> U_SUCCESS st \<longrightarrow>
      new_calls w (snd (GetLocaleInfoDecimalFormatSymbol ex loc symbol val valueLength w))
        = [Unum_open h st,
           Unum_getSymbol h symbol val valueLength (snd (unum_getSymbol ex h symbol valueLength st)),
           Unum_close h]
      \<and> live (calls (snd (GetLocaleInfoDecimalFormatSymbol ex loc symbol val valueLength w)))
        = live (calls w))
   \<and> (udat_open ex UDAT_DEFAULT UDAT_DEFAULT loc U_ZERO_ERROR = (h, st) \<and> U_SUCCESS st \<longrightarrow>
      new_calls w (snd (GetLocaleInfoAmPm ex loc am val valueLength w))
        = [Udat_open h st,
           Udat_getSymbols h
             (snd (udat_getSymbols ex h UDAT_AM_PMS (if am then 0 else 1) valueLength st)),
           Udat_close h]
      \<and> live (calls (snd (GetLocaleInfoAmPm ex loc am val valueLength w))) = live (calls w))
   \<and> (GetLocale ex localeName ULOC_FULLNAME_CAPACITY False U_ZERO_ERROR = (loc, err)
       \<and> \<not> U_FAILURE err
       \<and> udat_open ex (if shortFormat \<noteq> 0 then UDAT_SHORT else UDAT_MEDIUM) UDAT_NONE loc err
           = (h, st)
       \<and> U_SUCCESS st \<longrightarrow>
      new_calls w (snd (GlobalizationNative_GetLocaleTimeFormat ex localeName shortFormat valueLength w))
        = [Udat_open h st,
           Udat_toPattern h (snd (udat_toPattern ex h False valueLength st)),
           Udat_close h]
      \<and> live (calls (snd (GlobalizationNative_GetLocaleTimeFormat ex localeName shortFormat
                             valueLength w)))
        = live (calls w))"
proof (intro conjI impI; elim conjE)
  assume o: "unum_open ex UNUM_DECIMAL loc U_ZERO_ERROR = (h, st)" and s: "U_SUCCESS st"
  obtain wr st' where g: "unum_getSymbol ex h symbol valueLength st = (wr, st')"
    by (cases "unum_getSymbol ex h symbol valueLength st")
  have c: "calls (snd (GetLocaleInfoDecimalFormatSymbol ex loc symbol val valueLength w))
      = calls w @ [Unum_open h st, Unum_getSymbol h symbol val valueLength st', Unum_close h]"
    using s by (simp add: GetLocaleInfoDecimalFormatSymbol_def o g record_call_def store_def
        U_FAILURE_iff)
  show "new_calls w (snd (GetLocaleInfoDecimalFormatSymbol ex loc symbol val valueLength w))
        = [Unum_open h st,
           Unum_getSymbol h symbol val valueLength (snd (unum_getSymbol ex h symbol valueLength st)),
           Unum_close h]"
    by (simp add: new_calls_def c g)
  show "live (calls (snd (GetLocaleInfoDecimalFormatSymbol ex loc symbol val valueLength w)))
        = live (calls w)"
    using s by (simp add: c live_append)
next
  assume o: "udat_open ex UDAT_DEFAULT UDAT_DEFAULT loc U_ZERO_ERROR = (h, st)"
    and s: "U_SUCCESS st"
  obtain wr st' where
    g: "udat_getSymbols ex h UDAT_AM_PMS (if am then 0 else 1) valueLength st = (wr, st')"
    by (cases "udat_getSymbols ex h UDAT_AM_PMS (if am then 0 else 1) valueLength st")
  have c: "calls (snd (GetLocaleInfoAmPm ex loc am val valueLength w))
      = calls w @ [Udat_open h st, Udat_getSymbols h st', Udat_close h]"
    using s by (simp add: GetLocaleInfoAmPm_def o g record_call_def store_def U_FAILURE_iff)
  show "new_calls w (snd (GetLocaleInfoAmPm ex loc am val valueLength w))
        = [Udat_open h st,
           Udat_getSymbols h
             (snd (udat_getSymbols ex h UDAT_AM_PMS (if am then 0 else 1) valueLength st)),
           Udat_close h]"
    by (simp add: new_calls_def c g)
  show "live (calls (snd (GetLocaleInfoAmPm ex loc am val valueLength w))) = live (calls w)"
    using s by (simp add: c live_append)
next
  assume l: "GetLocale ex localeName ULOC_FULLNAME_CAPACITY False U_ZERO_ERROR = (loc, err)"
    and e: "\<not> U_FAILURE err"
    and o: "udat_open ex (if shortFormat \<noteq> 0 then UDAT_SHORT else UDAT_MEDIUM) UDAT_NONE loc err
           = (h, st)"
    and s: "U_SUCCESS st"
  obtain wr st' where g: "udat_toPattern ex h False valueLength st = (wr, st')"
    by (cases "udat_toPattern ex h False valueLength st")
  have c: "calls (snd (GlobalizationNative_GetLocaleTimeFormat ex localeName shortFormat valueLength w))
      = calls w @ [Udat_open h st, Udat_toPattern h st', Udat_close h]"
    using s e o
    by (simp add: GlobalizationNative_GetLocaleTimeFormat_def l g record_call_def store_def
        U_FAILURE_iff)
  show "new_calls w (snd (GlobalizationNative_GetLocaleTimeFormat ex localeName shortFormat valueLength w))
        = [Udat_open h st,
           Udat_toPattern h (snd (udat_toPattern ex h False valueLength st)),
           Udat_close h]"
    by (simp add: new_calls_def c g)
  show "live (calls (snd (GlobalizationNative_GetLocaleTimeFormat ex localeName shortFormat
                             valueLength w)))
        = live (calls w)"
    using s by (simp add: c live_append)
qed

theorem handles_are_closed_witness:
  "unum_open toy UNUM_DECIMAL ''en_US'' U_ZERO_ERROR = (1, 0) \<and> U_SUCCESS 0
   \<and> new_calls w0 (snd (GetLocaleInfoDecimalFormatSymbol toy ''en_US''
                          UNUM_DECIMAL_SEPARATOR_SYMBOL 0 0 w0))
       = [Unum_open 1 0, Unum_getSymbol 1 UNUM_DECIMAL_SEPARATOR_SYMBOL 0 0 U_BUFFER_OVERFLOW_ERROR,
          Unum_close 1]
   \<and> live (calls (snd (GetLocaleInfoDecimalFormatSymbol toy ''en_US''
                          UNUM_DECIMAL_SEPARATOR_SYMBOL 0 0 w0))) = live (calls w0)
   \<and> udat_open toy UDAT_DEFAULT UDAT_DEFAULT ''en_US'' U_ZERO_ERROR = (2, 0)
   \<and> new_calls w0 (snd (GetLocaleInfoAmPm toy ''en_US'' True 0 20 w0))
       = [Udat_open 2 0, Udat_getSymbols 2 0, Udat_close 2]
   \<and> live (calls (snd (GetLocaleInfoAmPm toy ''en_US'' True 0 20 w0))) = live (calls w0)
   \<and> GetLocale toy (ustr ''en-US'') ULOC_FULLNAME_CAPACITY False U_ZERO_ERROR = (''en_US'', 0)
   \<and> \<not> U_FAILURE 0
   \<and> udat_open toy (if (1::int) \<noteq> 0 then UDAT_SHORT else UDAT_MEDIUM) UDAT_NONE ''en_US'' 0
       = (2, 0)
   \<and> new_calls w0 (snd (GlobalizationNative_GetLocaleTimeFormat toy (ustr ''en-US'') 1 20 w0))
       = [Udat_open 2 0, Udat_toPattern 2 0, Udat_close 2]
   \<and> live (calls (snd (GlobalizationNative_GetLocaleTimeFormat toy (ustr ''en-US'') 1 20 w0)))
       = live (calls w0)"
proof -
  have a: "unum_open toy UNUM_DECIMAL ''en_US'' U_ZERO_ERROR = (1, 0)"
    and s: "U_SUCCESS 0"
    and b: "udat_open toy UDAT_DEFAULT UDAT_DEFAULT ''en_US'' U_ZERO_ERROR = (2, 0)"
    and g: "GetLocale toy (ustr ''en-US'') ULOC_FULLNAME_CAPACITY False U_ZERO_ERROR = (''en_US'', 0)"
    and f: "\<not> U_FAILURE 0"
    and c: "udat_open toy (if (1::int) \<noteq> 0 then UDAT_SHORT else UDAT_MEDIUM) UDAT_NONE ''en_US'' 0
       = (2, 0)"
    and x: "snd (unum_getSymbol toy 1 UNUM_DECIMAL_SEPARATOR_SYMBOL 0 0) = U_BUFFER_OVERFLOW_ERROR"
    and y: "snd (udat_getSymbols toy 2 UDAT_AM_PMS (if True then 0 else 1) 20 0) = 0"
    and z: "snd (udat_toPattern toy 2 False 20 0) = 0"
    by code_simp+
  have 1: "new_calls w0 (snd (GetLocaleInfoDecimalFormatSymbol toy ''en_US''
                          UNUM_DECIMAL_SEPARATOR_SYMBOL 0 0 w0))
       = [Unum_open 1 0, Unum_getSymbol 1 UNUM_DECIMAL_SEPARATOR_SYMBOL 0 0 U_BUFFER_OVERFLOW_ERROR,
          Unum_close 1]
     \<and> live (calls (snd (GetLocaleInfoDecimalFormatSymbol toy ''en_US''
                          UNUM_DECIMAL_SEPARATOR_SYMBOL 0 0 w0))) = live (calls w0)"
    using handles_are_closed [where ex = toy and loc = "''en_US''" and h = 1 and st = 0
        and w = w0 and symbol = UNUM_DECIMAL_SEPARATOR_SYMBOL and val = 0 and valueLength = 0]
      a s x by simp
  have 2: "new_calls w0 (snd (GetLocaleInfoAmPm toy ''en_US'' True 0 20 w0))
       = [Udat_open 2 0, Udat_getSymbols 2 0, Udat_close 2]
     \<and> live (calls (snd (GetLocaleInfoAmPm toy ''en_US'' True 0 20 w0))) = live (calls w0)"
    using handles_are_closed [where ex = toy and loc = "''en_US''" and h = 2 and st = 0
        and w = w0 and am = True and val = 0 and valueLength = 20]
      b s y by simp
  have 3: "new_calls w0 (snd (GlobalizationNative_GetLocaleTimeFormat toy (ustr ''en-US'') 1 20 w0))
       = [Udat_open 2 0, Udat_toPattern 2 0, Udat_close 2]
     \<and> live (calls (snd (GlobalizationNative_GetLocaleTimeFormat toy (ustr ''en-US'') 1 20 w0)))
       = live (calls w0)"
    using handles_are_closed [where ex = toy and loc = "''en_US''" and h = 2 and st = 0
        and w = w0 and localeName = "ustr ''en-US''" and err = 0 and shortFormat = 1
        and valueLength = 20]
      g f c s z by simp
  from 1 2 3 a s b g f c show ?thesis by simp
qed

subsection \<open>The name of the currency\<close>

text \<open>
  C7. When the library finds the currency of the locale and its long name, of length
  \<open>len\<close>, \<open>GetLocaleCurrencyName\<close> returns \<open>U_BUFFER_OVERFLOW_ERROR\<close> if and only
  if \<open>len \<ge> valueLength\<close>, and then stores nothing. Otherwise it returns the status
  of the library, a success, and stores the \<open>len\<close> characters of the name followed
  by a zero; they can be read back wherever the caller's array has room for them.
\<close>

theorem currency_name_overflow:
  assumes a: "ucurr_forLocale ex locale 4 U_ZERO_ERROR = (currency, st)"
    and sa: "U_SUCCESS st"
    and b: "ucurr_getName ex currency (if nativeName then locale else ULOC_US) UCURR_LONG_NAME st
              = (name, st')"
    and sb: "U_SUCCESS st'"
  shows "(fst (GetLocaleCurrencyName ex locale nativeName val valueLength w) = U_BUFFER_OVERFLOW_ERROR
            \<longleftrightarrow> int (length name) \<ge> valueLength)
       \<and> (int (length name) \<ge> valueLength \<longrightarrow>
            UErrorCodeToBool (fst (GetLocaleCurrencyName ex locale nativeName val valueLength w)) = 0
            \<and> buffer (snd (GetLocaleCurrencyName ex locale nativeName val valueLength w)) = buffer w)
       \<and> (int (length name) < valueLength \<longrightarrow>
            fst (GetLocaleCurrencyName ex locale nativeName val valueLength w) = st'
            \<and> UErrorCodeToBool (fst (GetLocaleCurrencyName ex locale nativeName val valueLength w)) = 1
            \<and> buffer (snd (GetLocaleCurrencyName ex locale nativeName val valueLength w))
                = poke (buffer w) val (name @ [0])
            \<and> (val + length name < length (buffer w) \<longrightarrow>
                 take (length name + 1)
                   (drop val (buffer (snd (GetLocaleCurrencyName ex locale nativeName val valueLength w))))
                 = name @ [0]))"
proof (cases "int (length name) \<ge> valueLength")
  case True
  then have "GetLocaleCurrencyName ex locale nativeName val valueLength w
      = (U_BUFFER_OVERFLOW_ERROR, w\<lparr>calls := calls w @ [Ucurr_forLocale st, Ucurr_getName st']\<rparr>)"
    using sa sb by (simp add: GetLocaleCurrencyName_def a b record_call_def)
  with True show ?thesis
    by (simp add: UErrorCodeToBool_failures)
next
  case False
  then have r: "GetLocaleCurrencyName ex locale nativeName val valueLength w
      = (st', w\<lparr>buffer := poke (buffer w) val (name @ [0]),
                calls := calls w @ [Ucurr_forLocale st, Ucurr_getName st']\<rparr>)"
    using sa sb
    by (simp add: GetLocaleCurrencyName_def a b record_call_def store_def u_strncpy_whole
        poke_then_terminate)
  have "st' \<noteq> U_BUFFER_OVERFLOW_ERROR"
    using sb by (auto simp: status_defs)
  moreover have "UErrorCodeToBool st' = 1"
    using sb by (simp add: UErrorCodeToBool_def)
  moreover have "take (length name + 1) (drop val (poke (buffer w) val (name @ [0]))) = name @ [0]"
    if "val + length name < length (buffer w)"
    using that poke_read_back [of val "name @ [0]" "buffer w"] by simp
  ultimately show ?thesis using False by (simp add: r)
qed

theorem currency_name_overflow_witness:
  "ucurr_forLocale toy ''en_US'' 4 U_ZERO_ERROR = (ustr ''USD'' @ [0], 0)
   \<and> U_SUCCESS 0
   \<and> ucurr_getName toy (ustr ''USD'' @ [0]) (if False then ''en_US'' else ULOC_US) UCURR_LONG_NAME 0
       = (ustr ''US Dollar'', 0)
   \<and> int (length (ustr ''US Dollar'')) \<ge> 9
   \<and> fst (GetLocaleCurrencyName toy ''en_US'' False 0 9 w0) = U_BUFFER_OVERFLOW_ERROR
   \<and> buffer (snd (GetLocaleCurrencyName toy ''en_US'' False 0 9 w0)) = buffer w0
   \<and> int (length (ustr ''US Dollar'')) < 10
   \<and> fst (GetLocaleCurrencyName toy ''en_US'' False 0 10 w0) = 0
   \<and> 0 + length (ustr ''US Dollar'') < length (buffer w0)
   \<and> take (length (ustr ''US Dollar'') + 1)
        (drop 0 (buffer (snd (GetLocaleCurrencyName toy ''en_US'' False 0 10 w0))))
       = ustr ''US Dollar'' @ [0]"
proof -
  have a: "ucurr_forLocale toy ''en_US'' 4 U_ZERO_ERROR = (ustr ''USD'' @ [0], 0)"
    and sa: "U_SUCCESS 0"
    and b: "ucurr_getName toy (ustr ''USD'' @ [0]) (if False then ''en_US'' else ULOC_US)
              UCURR_LONG_NAME 0 = (ustr ''US Dollar'', 0)"
    and l9: "int (length (ustr ''US Dollar'')) \<ge> 9"
    and l10: "int (length (ustr ''US Dollar'')) < 10"
    and room: "0 + length (ustr ''US Dollar'') < length (buffer w0)"
    by code_simp+
  note small = currency_name_overflow [OF a sa b sa, of 0 9 w0]
  note large = currency_name_overflow [OF a sa b sa, of 0 10 w0]
  from small l9 have
    "fst (GetLocaleCurrencyName toy ''en_US'' False 0 9 w0) = U_BUFFER_OVERFLOW_ERROR"
    "buffer (snd (GetLocaleCurrencyName toy ''en_US'' False 0 9 w0)) = buffer w0"
    by blast+
  moreover from large l10 room have
    "fst (GetLocaleCurrencyName toy ''en_US'' False 0 10 w0) = 0"
    "take (length (ustr ''US Dollar'') + 1)
        (drop 0 (buffer (snd (GetLocaleCurrencyName toy ''en_US'' False 0 10 w0))))
       = ustr ''US Dollar'' @ [0]"
    by blast+
  ultimately show ?thesis using a sa b l9 l10 room by simp
qed

subsection \<open>The temporary buffer\<close>




subsection \<open>The digits\<close>

lemma int32_sub_in_range:
  "- 2147483648 \<le> a - b \<Longrightarrow> a - b \<le> 2147483647 \<Longrightarrow> int32_sub a b = a - b"
  by (simp add: int32_sub_def)

lemma digit_query_adapter:
  "digit_query ex loc valueLength symbol i w
     = GetLocaleInfoDecimalFormatSymbol ex loc symbol (nat i) (int32_sub valueLength i) w"
  by (simp add: digit_query_def GetLocaleInfoDecimalFormatSymbol_def record_call_def store_def
      split: prod.splits)

lemma digit_queries_failed:
  "U_FAILURE status \<Longrightarrow> digit_queries ex loc valueLength table (status, w) = (status, w)"
  by (induction table) auto

lemma digit_queries_GetDigitSymbol:
  "digit_queries ex loc valueLength ((symbol, i) # rest) (status, w)
     = digit_queries ex loc valueLength rest (GetDigitSymbol ex loc status symbol i 0 valueLength w)"
  by (simp add: GetDigitSymbol_def digit_query_adapter)

lemma digit_loop_queries:
  "digit_loop ex loc symbol status valueLength w
     = digit_queries ex loc valueLength
         (map (\<lambda>k. (k, k - UNUM_ONE_DIGIT_SYMBOL + 1)) [symbol..UNUM_NINE_DIGIT_SYMBOL])
         (status, w)"
proof (induction "nat (UNUM_NINE_DIGIT_SYMBOL + 1 - symbol)" arbitrary: symbol status w)
  case 0
  then have "\<not> symbol \<le> UNUM_NINE_DIGIT_SYMBOL" by simp
  then show ?case by (simp add: digit_loop.simps)
next
  case (Suc n)
  then have le: "symbol \<le> UNUM_NINE_DIGIT_SYMBOL" by simp
  from Suc.hyps(2) have n: "n = nat (UNUM_NINE_DIGIT_SYMBOL + 1 - (symbol + 1))" by simp
  obtain s' w' where
    d: "GetDigitSymbol ex loc status symbol (symbol - UNUM_ONE_DIGIT_SYMBOL + 1) 0 valueLength w
          = (s', w')"
    by (cases "GetDigitSymbol ex loc status symbol (symbol - UNUM_ONE_DIGIT_SYMBOL + 1) 0
                 valueLength w")
  have "digit_loop ex loc symbol status valueLength w
          = digit_loop ex loc (symbol + 1) s' valueLength w'"
    using le by (subst digit_loop.simps) (simp add: d)
  also have "\<dots> = digit_queries ex loc valueLength
         (map (\<lambda>k. (k, k - UNUM_ONE_DIGIT_SYMBOL + 1)) [symbol + 1..UNUM_NINE_DIGIT_SYMBOL])
         (s', w')"
    by (rule Suc.hyps(1) [OF n])
  also have "\<dots> = digit_queries ex loc valueLength
         (map (\<lambda>k. (k, k - UNUM_ONE_DIGIT_SYMBOL + 1)) [symbol..UNUM_NINE_DIGIT_SYMBOL])
         (status, w)"
    using le by (simp add: upto_rec1 [of symbol] digit_queries_GetDigitSymbol d
        del: digit_queries.simps)
  finally show ?case .
qed

lemma tl_digit_table:
  "map (\<lambda>k. (k, k - UNUM_ONE_DIGIT_SYMBOL + 1)) [UNUM_ONE_DIGIT_SYMBOL..UNUM_NINE_DIGIT_SYMBOL]
     = tl digit_table"
  by code_simp

lemma Digits_queries:
  assumes "\<not> U_FAILURE st"
  shows "GetLocaleInfoString_switch ex loc st Digits valueLength w
     = digit_queries ex loc valueLength digit_table (st, w)"
proof -
  have "digit_queries ex loc valueLength digit_table (st, w)
      = digit_queries ex loc valueLength (tl digit_table)
          (GetDigitSymbol ex loc st UNUM_ZERO_DIGIT_SYMBOL 0 0 valueLength w)"
    unfolding digit_queries_GetDigitSymbol [symmetric] by (simp add: digit_table_def)
  then show ?thesis
    by (simp add: digit_loop_queries tl_digit_table split: prod.splits)
qed

lemma digit_queries_append:
  "digit_queries ex loc valueLength (xs @ ys) sw
     = digit_queries ex loc valueLength ys (digit_queries ex loc valueLength xs sw)"
proof (induction xs arbitrary: sw)
  case Nil
  show ?case by (cases sw) simp
next
  case (Cons x xs)
  obtain symbol i where x: "x = (symbol, i)" by (cases x)
  obtain status w where sw: "sw = (status, w)" by (cases sw)
  show ?case
    unfolding x sw append_Cons digit_queries.simps by (rule Cons.IH)
qed

lemma digit_queries_short_circuit:
  assumes "U_FAILURE (fst (digit_queries ex loc valueLength (take k table) sw))"
  shows "digit_queries ex loc valueLength table sw
           = digit_queries ex loc valueLength (take k table) sw"
proof -
  obtain s w where p: "digit_queries ex loc valueLength (take k table) sw = (s, w)"
    by (cases "digit_queries ex loc valueLength (take k table) sw")
  have "digit_queries ex loc valueLength (take k table @ drop k table) sw
          = digit_queries ex loc valueLength (drop k table) (s, w)"
    by (simp only: digit_queries_append p)
  with assms p show ?thesis
    by (simp add: digit_queries_failed)
qed

lemma int32_sub_wraps: "int32_sub (- 2147483648) 1 = 2147483647"
  by (simp add: int32_sub_def)

text \<open>
  C10. When \<open>GetLocale\<close> succeeds, \<open>GlobalizationNative_GetLocaleInfoString\<close> with
  \<^verbatim>\<open>Digits\<close> makes the ten queries of \<open>digit_table\<close> in order, the zero digit and
  then \<open>UNUM_ONE_DIGIT_SYMBOL\<close> to \<open>UNUM_NINE_DIGIT_SYMBOL\<close>: it returns the flag of the
  status they leave and leaves their state. The query for digit \<open>i\<close> stores the
  library's answer at offset \<open>i\<close> of the caller's array and gives the library
  \<^verbatim>\<open>valueLength - i\<close> characters of room, the \<^verbatim>\<open>int32_t\<close> difference of the source,
  which is the difference of the two numbers whenever that is an \<^verbatim>\<open>int32_t\<close>. Once
  the status is a failure after the first \<open>k\<close> queries, the function returns 0 and
  the state is the one those \<open>k\<close> queries left: every later \<open>GetDigitSymbol\<close> returns
  the status it was given and the state it was given, with no call of the library and
  nothing stored.
\<close>

theorem digits_in_order:
  "(GetLocale ex localeName ULOC_FULLNAME_CAPACITY False U_ZERO_ERROR = (loc, st)
    \<and> \<not> U_FAILURE st \<longrightarrow>
      GlobalizationNative_GetLocaleInfoString ex localeName Digits valueLength w
        = (UErrorCodeToBool (fst (digit_queries ex loc valueLength digit_table (st, w))),
           snd (digit_queries ex loc valueLength digit_table (st, w))))
   \<and> (GetLocale ex localeName ULOC_FULLNAME_CAPACITY False U_ZERO_ERROR = (loc, st)
       \<and> \<not> U_FAILURE st
       \<and> U_FAILURE (fst (digit_queries ex loc valueLength (take k digit_table) (st, w))) \<longrightarrow>
      GlobalizationNative_GetLocaleInfoString ex localeName Digits valueLength w
        = (0, snd (digit_queries ex loc valueLength (take k digit_table) (st, w))))
   \<and> (U_FAILURE previousStatus \<longrightarrow>
        GetDigitSymbol ex loc previousStatus symbol digit val valueLength w = (previousStatus, w))
   \<and> (\<not> U_FAILURE previousStatus \<longrightarrow>
        GetDigitSymbol ex loc previousStatus symbol digit 0 valueLength w
          = digit_query ex loc valueLength symbol digit w)
   \<and> (- 2147483648 \<le> valueLength - digit \<and> valueLength - digit \<le> 2147483647 \<longrightarrow>
        int32_sub valueLength digit = valueLength - digit)"
proof (intro conjI impI; (elim conjE)?)
  assume g: "GetLocale ex localeName ULOC_FULLNAME_CAPACITY False U_ZERO_ERROR = (loc, st)"
    and ok: "\<not> U_FAILURE st"
  show "GlobalizationNative_GetLocaleInfoString ex localeName Digits valueLength w
        = (UErrorCodeToBool (fst (digit_queries ex loc valueLength digit_table (st, w))),
           snd (digit_queries ex loc valueLength digit_table (st, w)))"
    unfolding GetLocaleInfoString_succeeded [OF g ok] Digits_queries [OF ok] ..
next
  assume g: "GetLocale ex localeName ULOC_FULLNAME_CAPACITY False U_ZERO_ERROR = (loc, st)"
    and ok: "\<not> U_FAILURE st"
    and failed: "U_FAILURE (fst (digit_queries ex loc valueLength (take k digit_table) (st, w)))"
  have z: "UErrorCodeToBool (fst (digit_queries ex loc valueLength (take k digit_table) (st, w))) = 0"
    using failed by (simp add: UErrorCodeToBool_def U_FAILURE_iff)
  show "GlobalizationNative_GetLocaleInfoString ex localeName Digits valueLength w
        = (0, snd (digit_queries ex loc valueLength (take k digit_table) (st, w)))"
    unfolding GetLocaleInfoString_succeeded [OF g ok] Digits_queries [OF ok]
      digit_queries_short_circuit [OF failed] z ..
next
  assume "U_FAILURE previousStatus"
  then show "GetDigitSymbol ex loc previousStatus symbol digit val valueLength w
               = (previousStatus, w)"
    by (simp add: GetDigitSymbol_def)
next
  assume "\<not> U_FAILURE previousStatus"
  then show "GetDigitSymbol ex loc previousStatus symbol digit 0 valueLength w
          = digit_query ex loc valueLength symbol digit w"
    by (simp add: GetDigitSymbol_def digit_query_adapter)
next
  assume "- 2147483648 \<le> valueLength - digit" "valueLength - digit \<le> 2147483647"
  then show "int32_sub valueLength digit = valueLength - digit"
    by (rule int32_sub_in_range)
qed

theorem digits_in_order_witness:
  "GetLocale toy (ustr ''en-US'') ULOC_FULLNAME_CAPACITY False U_ZERO_ERROR = (''en_US'', 0)
   \<and> \<not> U_FAILURE 0
   \<and> GlobalizationNative_GetLocaleInfoString toy (ustr ''en-US'') Digits 20 w0
       = (1, w0\<lparr>buffer := ustr ''0123456789'' @ 0 # replicate 9 65535,
                calls := concat (map (\<lambda>(symbol, i).
                   [Unum_open 1 0, Unum_getSymbol 1 symbol (nat i) (20 - i) 0, Unum_close 1])
                   digit_table)\<rparr>)
   \<and> U_FAILURE (fst (digit_queries toy ''en_US'' 5 (take 6 digit_table) (0, w0)))
   \<and> GlobalizationNative_GetLocaleInfoString toy (ustr ''en-US'') Digits 5 w0
       = (0, w0\<lparr>buffer := ustr ''01234'' @ replicate 15 65535,
                calls := concat (map (\<lambda>(symbol, i).
                   [Unum_open 1 0,
                    Unum_getSymbol 1 symbol (nat i) (5 - i)
                      (if i = 4 then U_STRING_NOT_TERMINATED_WARNING
                       else if i = 5 then U_BUFFER_OVERFLOW_ERROR else 0),
                    Unum_close 1])
                   (take 6 digit_table))\<rparr>)
   \<and> U_FAILURE U_BUFFER_OVERFLOW_ERROR
   \<and> GetDigitSymbol toy ''en_US'' U_BUFFER_OVERFLOW_ERROR (UNUM_ONE_DIGIT_SYMBOL + 5) 6 0 5 w0
       = (U_BUFFER_OVERFLOW_ERROR, w0)
   \<and> GetDigitSymbol toy ''en_US'' 0 UNUM_ONE_DIGIT_SYMBOL 1 0 20 w0
       = (0, w0\<lparr>buffer := poke (buffer w0) 1 (ustr ''1'' @ [0]),
                calls := [Unum_open 1 0, Unum_getSymbol 1 UNUM_ONE_DIGIT_SYMBOL 1 19 0,
                          Unum_close 1]\<rparr>)
   \<and> int32_sub 20 1 = 19"
proof -
  have g: "GetLocale toy (ustr ''en-US'') ULOC_FULLNAME_CAPACITY False U_ZERO_ERROR
             = (''en_US'', 0)"
    and ok: "\<not> U_FAILURE 0"
    and failed: "U_FAILURE (fst (digit_queries toy ''en_US'' 5 (take 6 digit_table) (0, w0)))"
    and overflow: "U_FAILURE U_BUFFER_OVERFLOW_ERROR"
    and range: "- 2147483648 \<le> (20 :: int) - 1 \<and> (20 :: int) - 1 \<le> 2147483647"
    by code_simp+
  have all_ten: "(UErrorCodeToBool (fst (digit_queries toy ''en_US'' 20 digit_table (0, w0))),
                  snd (digit_queries toy ''en_US'' 20 digit_table (0, w0)))
       = (1, w0\<lparr>buffer := ustr ''0123456789'' @ 0 # replicate 9 65535,
                calls := concat (map (\<lambda>(symbol, i).
                   [Unum_open 1 0, Unum_getSymbol 1 symbol (nat i) (20 - i) 0, Unum_close 1])
                   digit_table)\<rparr>)"
    by code_simp
  have six: "(0 :: int, snd (digit_queries toy ''en_US'' 5 (take 6 digit_table) (0, w0)))
       = (0, w0\<lparr>buffer := ustr ''01234'' @ replicate 15 65535,
                calls := concat (map (\<lambda>(symbol, i).
                   [Unum_open 1 0,
                    Unum_getSymbol 1 symbol (nat i) (5 - i)
                      (if i = 4 then U_STRING_NOT_TERMINATED_WARNING
                       else if i = 5 then U_BUFFER_OVERFLOW_ERROR else 0),
                    Unum_close 1])
                   (take 6 digit_table))\<rparr>)"
    by code_simp
  have one: "digit_query toy ''en_US'' 20 UNUM_ONE_DIGIT_SYMBOL 1 w0
       = (0, w0\<lparr>buffer := poke (buffer w0) 1 (ustr ''1'' @ [0]),
                calls := [Unum_open 1 0, Unum_getSymbol 1 UNUM_ONE_DIGIT_SYMBOL 1 19 0,
                          Unum_close 1]\<rparr>)"
    by code_simp
  note whole = digits_in_order [where ex = toy and localeName = "ustr ''en-US''"
      and loc = "''en_US''" and st = 0 and valueLength = 20 and w = w0
      and previousStatus = 0 and symbol = UNUM_ONE_DIGIT_SYMBOL and digit = 1]
  note cut = digits_in_order [where ex = toy and localeName = "ustr ''en-US''"
      and loc = "''en_US''" and st = 0 and valueLength = 5 and w = w0 and k = 6
      and previousStatus = U_BUFFER_OVERFLOW_ERROR and symbol = "UNUM_ONE_DIGIT_SYMBOL + 5"
      and digit = 6 and val = 0]
  from whole g ok have
    "GlobalizationNative_GetLocaleInfoString toy (ustr ''en-US'') Digits 20 w0
       = (UErrorCodeToBool (fst (digit_queries toy ''en_US'' 20 digit_table (0, w0))),
          snd (digit_queries toy ''en_US'' 20 digit_table (0, w0)))"
    by blast
  then have a: "GlobalizationNative_GetLocaleInfoString toy (ustr ''en-US'') Digits 20 w0
       = (1, w0\<lparr>buffer := ustr ''0123456789'' @ 0 # replicate 9 65535,
                calls := concat (map (\<lambda>(symbol, i).
                   [Unum_open 1 0, Unum_getSymbol 1 symbol (nat i) (20 - i) 0, Unum_close 1])
                   digit_table)\<rparr>)"
    unfolding all_ten .
  from cut g ok failed have
    "GlobalizationNative_GetLocaleInfoString toy (ustr ''en-US'') Digits 5 w0
       = (0, snd (digit_queries toy ''en_US'' 5 (take 6 digit_table) (0, w0)))"
    by blast
  then have b: "GlobalizationNative_GetLocaleInfoString toy (ustr ''en-US'') Digits 5 w0
       = (0, w0\<lparr>buffer := ustr ''01234'' @ replicate 15 65535,
                calls := concat (map (\<lambda>(symbol, i).
                   [Unum_open 1 0,
                    Unum_getSymbol 1 symbol (nat i) (5 - i)
                      (if i = 4 then U_STRING_NOT_TERMINATED_WARNING
                       else if i = 5 then U_BUFFER_OVERFLOW_ERROR else 0),
                    Unum_close 1])
                   (take 6 digit_table))\<rparr>)"
    unfolding six .
  from cut overflow have c:
    "GetDigitSymbol toy ''en_US'' U_BUFFER_OVERFLOW_ERROR (UNUM_ONE_DIGIT_SYMBOL + 5) 6 0 5 w0
       = (U_BUFFER_OVERFLOW_ERROR, w0)"
    by blast
  from whole ok have
    "GetDigitSymbol toy ''en_US'' 0 UNUM_ONE_DIGIT_SYMBOL 1 0 20 w0
       = digit_query toy ''en_US'' 20 UNUM_ONE_DIGIT_SYMBOL 1 w0"
    by blast
  then have d: "GetDigitSymbol toy ''en_US'' 0 UNUM_ONE_DIGIT_SYMBOL 1 0 20 w0
       = (0, w0\<lparr>buffer := poke (buffer w0) 1 (ustr ''1'' @ [0]),
                calls := [Unum_open 1 0, Unum_getSymbol 1 UNUM_ONE_DIGIT_SYMBOL 1 19 0,
                          Unum_close 1]\<rparr>)"
    unfolding one .
  from whole range have e: "int32_sub 20 1 = 19"
    by simp
  from g ok a failed b overflow c d e show ?thesis
    by blast
qed

subsection \<open>What is stored is what the library answered\<close>























end
